theory Spec2Isabelle
  imports Complex_Main "HOL-Library.Sublist"
begin

section \<open>Python strings\<close>

text \<open>
  The crawl service of \<^verbatim>\<open>backend/app/services/crawl_service.py\<close> works on Python
  \<^verbatim>\<open>str\<close> values. They are modelled as \<^typ>\<open>string\<close>, one \<^typ>\<open>char\<close> per code point,
  which covers the code points 0 to 255. The character classes below are the ones
  CPython computes on that range.
\<close>

definition code_point :: "char \<Rightarrow> nat" where
  "code_point c = of_char c"

text \<open>\<^verbatim>\<open>str.lower\<close>: the letters A to Z and the Latin-1 capitals move up by 32.\<close>

definition is_upper :: "char \<Rightarrow> bool" where
  "is_upper c = (let n = code_point c in
     (65 \<le> n \<and> n \<le> 90) \<or> (192 \<le> n \<and> n \<le> 222 \<and> n \<noteq> 215))"

definition lower_char :: "char \<Rightarrow> char" where
  "lower_char c = (if is_upper c then char_of (code_point c + 32) else c)"

definition lower :: "string \<Rightarrow> string" where
  "lower s = map lower_char s"

text \<open>\<^verbatim>\<open>str.isalnum\<close> for one character.\<close>

definition isalnum :: "char \<Rightarrow> bool" where
  "isalnum c = (let n = code_point c in
     (48 \<le> n \<and> n \<le> 57) \<or> (65 \<le> n \<and> n \<le> 90) \<or> (97 \<le> n \<and> n \<le> 122) \<or>
     n \<in> {170, 178, 179, 181, 185, 186, 188, 189, 190} \<or>
     (192 \<le> n \<and> n \<le> 255 \<and> n \<noteq> 215 \<and> n \<noteq> 247))"

text \<open>\<^verbatim>\<open>sub in s\<close>, \<^verbatim>\<open>s.startswith(p)\<close> and \<^verbatim>\<open>s.endswith(p)\<close>.\<close>

definition contains :: "string \<Rightarrow> string \<Rightarrow> bool" where
  "contains s sub = sublist sub s"

definition startswith :: "string \<Rightarrow> string \<Rightarrow> bool" where
  "startswith s p = prefix p s"

definition endswith :: "string \<Rightarrow> string \<Rightarrow> bool" where
  "endswith s p = prefix (rev p) (rev s)"

text \<open>
  \<^verbatim>\<open>s.replace(old, new)\<close>: the occurrences of \<^verbatim>\<open>old\<close> are replaced from left to
  right, without overlap; an empty \<^verbatim>\<open>old\<close> matches before every character and at
  the end.
\<close>

function replace_from :: "string \<Rightarrow> string \<Rightarrow> string \<Rightarrow> string" where
  "replace_from old new s =
     (if old = [] \<or> s = [] then s
      else if prefix old s then new @ replace_from old new (drop (length old) s)
      else hd s # replace_from old new (tl s))"
  by pat_completeness auto
termination
  by (relation "measure (\<lambda>(old, new, s). length s)") (auto simp: neq_Nil_conv)

definition replace :: "string \<Rightarrow> string \<Rightarrow> string \<Rightarrow> string" where
  "replace s old new =
     (if old = [] then new @ concat (map (\<lambda>c. c # new) s) else replace_from old new s)"

text \<open>\<^verbatim>\<open>s.lstrip(chars)\<close> and \<^verbatim>\<open>s.rstrip(chars)\<close>.\<close>

definition lstrip :: "string \<Rightarrow> char set \<Rightarrow> string" where
  "lstrip s chars = dropWhile (\<lambda>c. c \<in> chars) s"

definition rstrip :: "string \<Rightarrow> char set \<Rightarrow> string" where
  "rstrip s chars = rev (dropWhile (\<lambda>c. c \<in> chars) (rev s))"

text \<open>\<^verbatim>\<open>s.find(c)\<close>, \<^verbatim>\<open>s.find(c, start)\<close> and \<^verbatim>\<open>s.rfind(c)\<close> for one character: -1 when absent.\<close>

definition find :: "string \<Rightarrow> char \<Rightarrow> int" where
  "find s c = (if c \<in> set s then int (length (takeWhile (\<lambda>x. x \<noteq> c) s)) else -1)"

definition find_from :: "string \<Rightarrow> char \<Rightarrow> int \<Rightarrow> int" where
  "find_from s c start =
     (let k = (if start < 0 then nat (max 0 (int (length s) + start)) else nat start);
          t = drop k s
      in if c \<in> set t then int k + int (length (takeWhile (\<lambda>x. x \<noteq> c) t)) else -1)"

definition rfind :: "string \<Rightarrow> char \<Rightarrow> int" where
  "rfind s c =
     (if c \<in> set s then int (length s) - 1 - int (length (takeWhile (\<lambda>x. x \<noteq> c) (rev s)))
      else -1)"

text \<open>\<^verbatim>\<open>s.split(sep)\<close> for a one-character separator, and \<^verbatim>\<open>sep.join(parts)\<close>.\<close>

fun split :: "string \<Rightarrow> char \<Rightarrow> string list" where
  "split [] sep = [[]]"
| "split (c # cs) sep =
     (if c = sep then [] # split cs sep
      else (case split cs sep of p # ps \<Rightarrow> (c # p) # ps | [] \<Rightarrow> [[c]]))"

fun join :: "string \<Rightarrow> string list \<Rightarrow> string" where
  "join sep [] = []"
| "join sep [p] = p"
| "join sep (p # q # ps) = p @ sep @ join sep (q # ps)"

text \<open>\<^verbatim>\<open>xs[-n:]\<close>: the last \<open>n\<close> elements, all of them when there are fewer.\<close>

definition last_n :: "nat \<Rightarrow> 'a list \<Rightarrow> 'a list" where
  "last_n n xs = drop (length xs - n) xs"

text \<open>\<^verbatim>\<open>s.removeprefix(p)\<close>.\<close>

definition removeprefix :: "string \<Rightarrow> string \<Rightarrow> string" where
  "removeprefix s p = (if prefix p s then drop (length p) s else s)"

text \<open>\<^verbatim>\<open>str(n)\<close> for an integer, as an f-string prints it.\<close>

fun digits :: "nat \<Rightarrow> nat \<Rightarrow> string" where
  "digits 0 n = []"
| "digits (Suc fuel) n =
     (if n < 10 then [char_of (48 + n)] else digits fuel (n div 10) @ [char_of (48 + n mod 10)])"

definition str_nat :: "nat \<Rightarrow> string" where
  "str_nat n = digits (Suc n) n"

definition str_int :: "int \<Rightarrow> string" where
  "str_int i = (if i < 0 then CHR ''-'' # str_nat (nat (- i)) else str_nat (nat i))"

section \<open>The standard library: urllib.parse\<close>

text \<open>
  The service calls \<^verbatim>\<open>urlparse\<close>, \<^verbatim>\<open>urlunparse\<close>, \<^verbatim>\<open>parse_qs\<close> and \<^verbatim>\<open>urlencode\<close> of
  CPython's \<^verbatim>\<open>urllib.parse\<close>. \<^verbatim>\<open>urlparse\<close> and \<^verbatim>\<open>urlunparse\<close> are written out below
  after the library's source (CPython 3.11). Four library functions are taken as
  parameters, collected in the record \<open>pylib\<close>: \<^verbatim>\<open>_check_bracketed_host\<close> (it decides
  with \<^verbatim>\<open>ipaddress\<close> and \<^verbatim>\<open>re\<close> whether the text between square brackets in a host
  is acceptable), the pair \<^verbatim>\<open>parse_qs(q, keep_blank_values=True)\<close> and
  \<^verbatim>\<open>urlencode(d, doseq=True)\<close>, whose percent-decoding produces code points outside
  the range modelled here, and \<^verbatim>\<open>str.title\<close>, whose upper-case letters can lie outside
  that range too. A dictionary is an association list in insertion order.
\<close>

datatype py_error = ValueError | UnboundLocalError | OSError | RequestException | Timeout

type_synonym qs_dict = "(string \<times> string list) list"

record pylib =
  bracketed_host_ok :: "string \<Rightarrow> bool"
  parse_qs :: "string \<Rightarrow> qs_dict"
  urlencode :: "qs_dict \<Rightarrow> string"
  title :: "string \<Rightarrow> string"

record parse_result =
  scheme :: string
  netloc :: string
  path :: string
  params :: string
  query :: string
  fragment :: string

definition uses_netloc :: "string list" where
  "uses_netloc = ['''', ''ftp'', ''http'', ''gopher'', ''nntp'', ''telnet'',
     ''imap'', ''wais'', ''file'', ''mms'', ''https'', ''shttp'',
     ''snews'', ''prospero'', ''rtsp'', ''rtsps'', ''rtspu'', ''rsync'',
     ''svn'', ''svn+ssh'', ''sftp'', ''nfs'', ''git'', ''git+ssh'',
     ''ws'', ''wss'']"

definition uses_params :: "string list" where
  "uses_params = ['''', ''ftp'', ''hdl'', ''prospero'', ''http'', ''imap'',
     ''https'', ''shttp'', ''rtsp'', ''rtsps'', ''rtspu'', ''sip'',
     ''sips'', ''mms'', ''sftp'', ''tel'']"

definition is_ascii_alpha :: "char \<Rightarrow> bool" where
  "is_ascii_alpha c = (let n = code_point c in (65 \<le> n \<and> n \<le> 90) \<or> (97 \<le> n \<and> n \<le> 122))"

definition scheme_chars :: "char set" where
  "scheme_chars = {c. is_ascii_alpha c \<or> (48 \<le> code_point c \<and> code_point c \<le> 57) \<or>
     c \<in> {CHR ''+'', CHR ''-'', CHR ''.''}}"

definition WHATWG_C0_CONTROL_OR_SPACE :: "char set" where
  "WHATWG_C0_CONTROL_OR_SPACE = {c. code_point c \<le> 32}"

definition UNSAFE_URL_BYTES_TO_REMOVE :: "char set" where
  "UNSAFE_URL_BYTES_TO_REMOVE = {CHR 0x09, CHR 0x0D, CHR 0x0A}"

text \<open>\<^verbatim>\<open>_splitnetloc(url, 2)\<close>: the host part ends at the first of \<^verbatim>\<open>/ ? #\<close>.\<close>

definition splitnetloc :: "string \<Rightarrow> string \<times> string" where
  "splitnetloc url =
     (let r = drop 2 url; d = (\<lambda>c. c \<notin> {CHR ''/'', CHR ''?'', CHR ''#''})
      in (takeWhile d r, dropWhile d r))"

text \<open>\<^verbatim>\<open>netloc.partition('[')[2].partition(']')[0]\<close>.\<close>

definition bracketed_host :: "string \<Rightarrow> string" where
  "bracketed_host nl =
     takeWhile (\<lambda>c. c \<noteq> CHR '']'') (drop 1 (dropWhile (\<lambda>c. c \<noteq> CHR ''['') nl))"

text \<open>\<^verbatim>\<open>a, b = s.split(c, 1)\<close> for a string that contains \<open>c\<close>.\<close>

definition split1 :: "string \<Rightarrow> char \<Rightarrow> string \<times> string" where
  "split1 s c = (takeWhile (\<lambda>x. x \<noteq> c) s, drop 1 (dropWhile (\<lambda>x. x \<noteq> c) s))"

text \<open>
  \<^verbatim>\<open>urlsplit(url)\<close>. It raises \<^verbatim>\<open>ValueError\<close> on a host with unbalanced or unacceptable
  square brackets. Its last check, \<^verbatim>\<open>_checknetloc\<close>, only rejects a host whose NFKC
  normal form gains one of \<^verbatim>\<open>/ ? # @ :\<close>; no code point below 256 does, so the check
  never fires on the strings modelled here.
\<close>

definition urlsplit :: "pylib \<Rightarrow> string \<Rightarrow> py_error + parse_result" where
  "urlsplit L url0 =
     (let url = lstrip url0 WHATWG_C0_CONTROL_OR_SPACE;
          url = filter (\<lambda>c. c \<notin> UNSAFE_URL_BYTES_TO_REMOVE) url;
          i = find url (CHR '':'');
          (scheme, url) =
            (if i > 0 \<and> is_ascii_alpha (hd url) \<and> set (take (nat i) url) \<subseteq> scheme_chars
             then (lower (take (nat i) url), drop (nat i + 1) url)
             else ('''', url));
          (netloc, url) = (if take 2 url = ''//'' then splitnetloc url else ('''', url));
          (url, fragment) = (if CHR ''#'' \<in> set url then split1 url (CHR ''#'') else (url, ''''));
          (url, query) = (if CHR ''?'' \<in> set url then split1 url (CHR ''?'') else (url, ''''))
      in if (CHR ''['' \<in> set netloc \<and> CHR '']'' \<notin> set netloc) \<or>
            (CHR '']'' \<in> set netloc \<and> CHR ''['' \<notin> set netloc)
         then Inl ValueError
         else if CHR ''['' \<in> set netloc \<and> CHR '']'' \<in> set netloc \<and>
                 \<not> bracketed_host_ok L (bracketed_host netloc)
         then Inl ValueError
         else Inr \<lparr>scheme = scheme, netloc = netloc, path = url, params = '''',
                   query = query, fragment = fragment\<rparr>)"

definition splitparams :: "string \<Rightarrow> string \<times> string" where
  "splitparams url =
     (if CHR ''/'' \<in> set url then
        (let i = find_from url (CHR '';'') (rfind url (CHR ''/''))
         in if i < 0 then (url, '''') else (take (nat i) url, drop (nat i + 1) url))
      else (let i = find url (CHR '';'') in (take (nat i) url, drop (nat i + 1) url)))"

definition urlparse :: "pylib \<Rightarrow> string \<Rightarrow> py_error + parse_result" where
  "urlparse L url =
     (case urlsplit L url of
        Inl e \<Rightarrow> Inl e
      | Inr r \<Rightarrow>
          if scheme r \<in> set uses_params \<and> CHR '';'' \<in> set (path r)
          then (let (u, p) = splitparams (path r) in Inr (r\<lparr>path := u, params := p\<rparr>))
          else Inr r)"

definition urlunsplit :: "string \<Rightarrow> string \<Rightarrow> string \<Rightarrow> string \<Rightarrow> string \<Rightarrow> string" where
  "urlunsplit sch nl url0 q frag =
     (let url = (if nl \<noteq> [] \<or> (sch \<noteq> [] \<and> sch \<in> set uses_netloc) \<or> take 2 url0 = ''//''
                 then ''//'' @ nl @ (if url0 \<noteq> [] \<and> take 1 url0 \<noteq> ''/'' then ''/'' @ url0 else url0)
                 else url0);
          url = (if sch \<noteq> [] then sch @ '':'' @ url else url);
          url = (if q \<noteq> [] then url @ ''?'' @ q else url)
      in if frag \<noteq> [] then url @ ''#'' @ frag else url)"

definition urlunparse :: "parse_result \<Rightarrow> string" where
  "urlunparse r =
     urlunsplit (scheme r) (netloc r)
       (if params r \<noteq> [] then path r @ '';'' @ params r else path r) (query r) (fragment r)"






section \<open>Configuration\<close>

text \<open>
  The constants of \<^verbatim>\<open>app.config\<close> that the functions below read. The module is not
  part of the sources, so they are parameters.
\<close>

record config =
  TRACKING_PARAMS :: "string list"
  MAX_CONCURRENT_CRAWLS :: int
  CRAWL_RESPECT_ROBOTS :: bool
  USER_AGENT :: string
  MAX_FILE_SIZE_BYTES :: int
  MAX_DOWNLOAD_TIME :: int
  CRAWL_MODE :: string
  RAW_STORAGE_DIR :: string

section \<open>Concurrency registry\<close>

text \<open>
  \<^verbatim>\<open>_ACTIVE_CRAWLS\<close> is a dictionary from crawl id to start time. It is an association
  list in insertion order, which is the order Python iterates a dictionary in; a time
  stamp is an integer (microseconds, say). The lock around each operation makes the
  operation atomic, so each one is a function on the registry.
\<close>

type_synonym registry = "(int \<times> int) list"

text \<open>\<^verbatim>\<open>d[k] = v\<close>: an existing key keeps its place, a new key goes last.\<close>

fun dict_set :: "('k \<times> 'v) list \<Rightarrow> 'k \<Rightarrow> 'v \<Rightarrow> ('k \<times> 'v) list" where
  "dict_set [] k v = [(k, v)]"
| "dict_set ((k', v') # d) k v = (if k' = k then (k, v) # d else (k', v') # dict_set d k v)"

text \<open>
  \<^verbatim>\<open>min(d.keys(), key=lambda k: d[k])\<close>: the first key, in iteration order, whose value
  is least; \<^verbatim>\<open>ValueError\<close> on an empty dictionary.
\<close>

fun min_key_by_value :: "('k \<times> int) list \<Rightarrow> py_error + 'k" where
  "min_key_by_value [] = Inl ValueError"
| "min_key_by_value (e # d) =
     Inr (fst (foldl (\<lambda>best y. if snd y < snd best then y else best) e d))"

text \<open>The reason that \<^verbatim>\<open>can_start_crawl\<close> formats when it refuses.\<close>

definition capacity_reason :: "int \<Rightarrow> int \<Rightarrow> string" where
  "capacity_reason limit oldest_crawl_id =
     ''Maximum concurrent crawls ('' @ str_int limit @
     '') reached. Oldest active crawl: #'' @ str_int oldest_crawl_id"

definition can_start_crawl :: "config \<Rightarrow> registry \<Rightarrow> py_error + (bool \<times> string option)" where
  "can_start_crawl C active_crawls =
     (let active_count = int (length active_crawls) in
      if active_count \<ge> MAX_CONCURRENT_CRAWLS C then
        (case min_key_by_value active_crawls of
           Inl e \<Rightarrow> Inl e
         | Inr oldest_crawl_id \<Rightarrow>
             Inr (False, Some (capacity_reason (MAX_CONCURRENT_CRAWLS C) oldest_crawl_id)))
      else Inr (True, None))"

text \<open>\<^verbatim>\<open>register_active_crawl(crawl_id)\<close>, at the time \<open>now\<close>.\<close>

definition register_active_crawl :: "registry \<Rightarrow> int \<Rightarrow> int \<Rightarrow> registry" where
  "register_active_crawl active_crawls crawl_id now = dict_set active_crawls crawl_id now"

definition unregister_active_crawl :: "registry \<Rightarrow> int \<Rightarrow> registry" where
  "unregister_active_crawl active_crawls crawl_id =
     (if crawl_id \<in> fst ` set active_crawls
      then filter (\<lambda>(k, v). k \<noteq> crawl_id) active_crawls else active_crawls)"

definition get_active_crawl_count :: "registry \<Rightarrow> int" where
  "get_active_crawl_count active_crawls = int (length active_crawls)"

text \<open>A configuration for the closed examples: one crawl at a time.\<close>

definition example_config :: config where
  "example_config = \<lparr>TRACKING_PARAMS = [''utm_source'', ''utm_medium'', ''fbclid''],
     MAX_CONCURRENT_CRAWLS = 1, CRAWL_RESPECT_ROBOTS = True, USER_AGENT = ''PolicyBot'',
     MAX_FILE_SIZE_BYTES = 100, MAX_DOWNLOAD_TIME = 10, CRAWL_MODE = ''breadth'',
     RAW_STORAGE_DIR = ''/data/raw''\<rparr>"

section \<open>Robots cache\<close>

text \<open>
  \<^verbatim>\<open>can_fetch\<close> relies on \<^verbatim>\<open>urllib.robotparser.RobotFileParser\<close>. Its methods \<^verbatim>\<open>read\<close> and
  \<^verbatim>\<open>can_fetch\<close> are written out after the library's source (CPython 3.11). What
  \<^verbatim>\<open>urlopen\<close> does for the robots URL is the environment: it raises \<^verbatim>\<open>HTTPError\<close> with a
  status code, raises another error (no connection, timeout), or returns a body, which
  is either not UTF-8 (\<^verbatim>\<open>decode\<close> raises) or parses into rules. The rules of a parsed
  file are a function from user agent and URL to the answer of the matching entry; the
  answer can be an error, because the library parses the URL again.
\<close>

datatype robots_response =
    HTTPError int
  | FetchError
  | UndecodableBody
  | RobotsFile "string \<Rightarrow> string \<Rightarrow> py_error + bool"

record robot_file_parser =
  disallow_all :: bool
  allow_all :: bool
  last_checked :: bool
  rules :: "string \<Rightarrow> string \<Rightarrow> py_error + bool"

text \<open>\<^verbatim>\<open>RobotFileParser()\<close>: no entries, so every agent would be granted access.\<close>

definition new_parser :: robot_file_parser where
  "new_parser = \<lparr>disallow_all = False, allow_all = False, last_checked = False,
                  rules = (\<lambda>useragent url. Inr True)\<rparr>"

text \<open>
  \<^verbatim>\<open>rp.read()\<close>. An \<^verbatim>\<open>HTTPError\<close> is caught inside the method: 401 and 403 set
  \<^verbatim>\<open>disallow_all\<close>, the other codes from 400 to 499 set \<^verbatim>\<open>allow_all\<close>, and any other code
  leaves the parser as it was. Only \<^verbatim>\<open>parse\<close> records that the file was read.
\<close>

definition rp_read :: "robots_response \<Rightarrow> robot_file_parser \<Rightarrow> py_error + robot_file_parser" where
  "rp_read response rp =
     (case response of
        HTTPError code \<Rightarrow>
          Inr (if code = 401 \<or> code = 403 then rp\<lparr>disallow_all := True\<rparr>
               else if code \<ge> 400 \<and> code < 500 then rp\<lparr>allow_all := True\<rparr>
               else rp)
      | FetchError \<Rightarrow> Inl OSError
      | UndecodableBody \<Rightarrow> Inl ValueError
      | RobotsFile r \<Rightarrow> Inr (rp\<lparr>last_checked := True, rules := r\<rparr>))"

text \<open>\<^verbatim>\<open>rp.can_fetch(useragent, url)\<close>.\<close>

definition rp_can_fetch :: "robot_file_parser \<Rightarrow> string \<Rightarrow> string \<Rightarrow> py_error + bool" where
  "rp_can_fetch rp useragent url =
     (if disallow_all rp then Inr False
      else if allow_all rp then Inr True
      else if \<not> last_checked rp then Inr False
      else rules rp useragent url)"

text \<open>
  \<^verbatim>\<open>_ROBOTS_CACHE\<close> maps a robots URL to a parser or to \<^verbatim>\<open>None\<close>. \<^verbatim>\<open>can_fetch(url, session)\<close>
  returns its answer and the cache it leaves.
\<close>

type_synonym robots_cache = "(string \<times> robot_file_parser option) list"

definition can_fetch ::
  "pylib \<Rightarrow> config \<Rightarrow> (string \<Rightarrow> robots_response) \<Rightarrow> robots_cache \<Rightarrow> string \<Rightarrow>
   bool \<times> robots_cache" where
  "can_fetch L C urlopen cache url =
     (if \<not> CRAWL_RESPECT_ROBOTS C then (True, cache)
      else
        (case urlparse L url of
           Inl e \<Rightarrow> (True, cache)
         | Inr parsed \<Rightarrow>
             (let robots_url = scheme parsed @ ''://'' @ netloc parsed @ ''/robots.txt'' in
              case map_of cache robots_url of
                Some None \<Rightarrow> (True, cache)
              | Some (Some rp) \<Rightarrow>
                  (case rp_can_fetch rp (USER_AGENT C) url of
                     Inl e \<Rightarrow> (True, cache)
                   | Inr result \<Rightarrow> (result, cache))
              | None \<Rightarrow>
                  (case urlparse L robots_url of
                     Inl e \<Rightarrow> (True, cache)
                   | Inr _ \<Rightarrow>
                       (case rp_read (urlopen robots_url) new_parser of
                          Inl e \<Rightarrow> (True, dict_set cache robots_url None)
                        | Inr rp \<Rightarrow>
                            (let cache' = dict_set cache robots_url (Some rp) in
                             case rp_can_fetch rp (USER_AGENT C) url of
                               Inl e \<Rightarrow> (True, dict_set cache' robots_url None)
                             | Inr result \<Rightarrow> (result, cache')))))))"

section \<open>URL normalisation and heuristics\<close>

text \<open>\<^verbatim>\<open>normalize_url(url)\<close>. A \<^verbatim>\<open>ValueError\<close> of \<^verbatim>\<open>urlparse\<close> propagates.\<close>

definition normalize_url :: "pylib \<Rightarrow> config \<Rightarrow> string \<Rightarrow> py_error + string" where
  "normalize_url L C url =
     (case urlparse L url of
        Inl e \<Rightarrow> Inl e
      | Inr parsed \<Rightarrow>
          (let path' = (let p = rstrip (path parsed) {CHR ''/''} in if p = [] then ''/'' else p);
               query' =
                 (if query parsed \<noteq> [] then
                    (let ps = parse_qs L (query parsed);
                         ps = filter (\<lambda>(k, v). lower k \<notin> set (TRACKING_PARAMS C)) ps
                     in if ps \<noteq> [] then urlencode L ps else '''')
                  else '''');
               scheme' = lower (scheme parsed);
               netloc' = lower (netloc parsed)
           in Inr (urlunparse \<lparr>scheme = scheme', netloc = netloc', path = path',
                     params = params parsed, query = query', fragment = ''''\<rparr>)))"

text \<open>\<^verbatim>\<open>is_pdf_url(url)\<close>.\<close>

definition is_pdf_url :: "pylib \<Rightarrow> string \<Rightarrow> py_error + bool" where
  "is_pdf_url L url =
     (case urlparse L url of
        Inl e \<Rightarrow> Inl e
      | Inr parsed \<Rightarrow>
          (let p = lower (path parsed) in
           if endswith p ''.pdf'' \<or> endswith p ''.pdf/'' then Inr True
           else if contains p ''.pdf'' then Inr True
           else if contains (lower (query parsed)) ''.pdf'' then Inr True
           else Inr False))"

section \<open>Candidate filtering\<close>

definition policy_type_map :: "(string \<times> string list) list" where
  "policy_type_map =
    [(''life'', [''life'', ''lif'', ''living'', ''death'', ''tpd'', ''income protection'', ''trauma'']),
     (''home'', [''home'', ''house'', ''property'', ''building'', ''landlord'', ''rental'', ''dwelling'']),
     (''contents'', [''contents'', ''contents plus'', ''personal belongings'', ''valuables'',
        ''household contents'']),
     (''motor'', [''motor'', ''vehicle'', ''car'', ''auto'', ''comprehensive'', ''third party'', ''tpft'']),
     (''travel'', [''travel'', ''trip'', ''overseas'', ''holiday'', ''international'']),
     (''health'', [''health'', ''medical'', ''hospital'', ''dental'', ''optical'']),
     (''business'', [''business'', ''commercial'', ''liability'', ''sme'', ''professional indemnity'',
        ''public liability'']),
     (''pet'', [''pet'', ''dog'', ''cat'', ''animal'']),
     (''marine'', [''marine'', ''boat'', ''watercraft'', ''yacht''])]"

text \<open>
  The loop over the requested policy types of \<^verbatim>\<open>is_valid_document\<close>: the first type
  one of whose keywords occurs in the lower-cased URL.
\<close>

fun match_policy_type :: "string \<Rightarrow> string list \<Rightarrow> string option" where
  "match_policy_type url_lower [] = None"
| "match_policy_type url_lower (policy_type # rest) =
     (let policy_keywords =
            (case map_of policy_type_map (lower policy_type) of
               Some kws \<Rightarrow> kws | None \<Rightarrow> [lower policy_type])
      in if list_ex (\<lambda>pk. contains url_lower pk) policy_keywords then Some policy_type
         else match_policy_type url_lower rest)"

text \<open>\<^verbatim>\<open>is_valid_document(url, keyword_filters, policy_types)\<close>.\<close>

definition is_valid_document :: "string \<Rightarrow> string list \<Rightarrow> string list \<Rightarrow> bool \<times> string option" where
  "is_valid_document url keyword_filters policy_types =
     (let url_lower = lower url in
      case match_policy_type url_lower policy_types of
        Some policy_type \<Rightarrow> (True, Some policy_type)
      | None \<Rightarrow>
          if keyword_filters \<noteq> [] \<and> list_ex (\<lambda>keyword. contains url_lower (lower keyword)) keyword_filters
          then (True, Some ''General'')
          else if endswith url_lower ''.pdf'' \<or> endswith url_lower ''.pdf/''
          then (True, Some ''General'')
          else (False, None))"

section \<open>Same-domain comparison\<close>

definition CCLD_SUFFIXES :: "string list" where
  "CCLD_SUFFIXES =
    [''co.nz'', ''org.nz'', ''net.nz'', ''govt.nz'', ''ac.nz'',
     ''com.au'', ''org.au'', ''net.au'', ''edu.au'', ''gov.au'',
     ''co.uk'', ''org.uk'', ''me.uk'', ''net.uk'', ''gov.uk'',
     ''co.za'', ''org.za'', ''co.in'', ''com.sg'', ''com.hk'', ''co.jp'',
     ''com.br'', ''co.kr'', ''com.mx'', ''co.id'']"

definition get_base_domain :: "string \<Rightarrow> string" where
  "get_base_domain netloc0 =
     (let netloc = hd (split (removeprefix (lower netloc0) ''www.'') (CHR '':''));
          parts = split netloc (CHR ''.'')
      in if length parts \<ge> 3 \<and> join ''.'' (last_n 2 parts) \<in> set CCLD_SUFFIXES
         then join ''.'' (last_n 3 parts)
         else if length parts \<ge> 2 then join ''.'' (last_n 2 parts)
         else netloc)"

definition same_domain :: "pylib \<Rightarrow> string \<Rightarrow> string \<Rightarrow> py_error + bool" where
  "same_domain L seed_url candidate_url =
     (case urlparse L seed_url of
        Inl e \<Rightarrow> Inl e
      | Inr s \<Rightarrow>
          (case urlparse L candidate_url of
             Inl e \<Rightarrow> Inl e
           | Inr c \<Rightarrow> Inr (get_base_domain (netloc s) = get_base_domain (netloc c))))"

text \<open>
  The comparison in the specification's words. The host of a network location is what
  the library's \<^verbatim>\<open>hostname\<close> property gives (CPython 3.11): the text after the last
  \<^verbatim>\<open>@\<close>, inside square brackets if there are any and up to the first colon otherwise,
  lower-cased up to a \<^verbatim>\<open>%\<close>; \<^verbatim>\<open>None\<close> when that is empty. A plain network location has no
  user information, no bracketed address and no zone. The labels of a host are its
  parts between the periods, a leading \<^verbatim>\<open>www.\<close> aside. Of the labels the last three
  are kept when the last two form a listed suffix, and the last two otherwise.
\<close>

definition hostname :: "string \<Rightarrow> string option" where
  "hostname netloc0 =
     (let hostinfo = rev (takeWhile (\<lambda>c. c \<noteq> CHR ''@'') (rev netloc0));
          h = (if CHR ''['' \<in> set hostinfo
               then takeWhile (\<lambda>c. c \<noteq> CHR '']'') (tl (dropWhile (\<lambda>c. c \<noteq> CHR ''['') hostinfo))
               else takeWhile (\<lambda>c. c \<noteq> CHR '':'') hostinfo)
      in if h = [] then None
         else Some (lower (takeWhile (\<lambda>c. c \<noteq> CHR ''%'') h) @ dropWhile (\<lambda>c. c \<noteq> CHR ''%'') h))"




section \<open>File names\<close>

text \<open>
  \<^verbatim>\<open>sanitize_filename(name)\<close>: the separators and the sequence \<^verbatim>\<open>..\<close> become
  underscores, every other character that is neither alphanumeric nor one of
  \<^verbatim>\<open>_ - .\<close> is dropped, leading periods are stripped, an empty result becomes
  \<^verbatim>\<open>unknown\<close>, and the result is cut at 200 characters.
\<close>

definition sanitize_filename :: "string \<Rightarrow> string" where
  "sanitize_filename name =
     (let safe_name = replace (replace (replace name ''/'' ''_'') [CHR 0x5C] ''_'') ''..'' ''_'';
          safe_name = filter (\<lambda>c. isalnum c \<or> c \<in> {CHR ''_'', CHR ''-'', CHR ''.''}) safe_name;
          safe_name = (let t = lstrip safe_name {CHR ''.''} in if t = [] then ''unknown'' else t)
      in if length safe_name > 200 then take 200 safe_name else safe_name)"

section \<open>Domain crawler\<close>

definition doc_path_keywords :: "string list" where
  "doc_path_keywords =
    [''/download'', ''/document'', ''/getdocument'', ''/getfile'',
     ''/file/'', ''/media/'', ''/assets/'', ''/pdfs/'', ''/publications/'',
     ''/forms/'', ''/brochure'', ''/disclosure'', ''/resources/'',
     ''/policy-wording'', ''/policy-document'', ''/pds/'',
     ''/factsheet'', ''/fact-sheet'', ''/target-market'',
     ''/product-guide'', ''/claim-form'', ''/certificate'',
     ''/wp-content/uploads'', ''/sites/default/files'']"

definition doc_text_keywords :: "string list" where
  "doc_text_keywords =
    [''download'', ''pdf'', ''policy wording'', ''pds'', ''fact sheet'',
     ''product disclosure'', ''target market'', ''brochure'',
     ''view document'', ''open document'', ''read more'',
     ''policy document'', ''claim form'', ''product guide'',
     ''view pdf'', ''download pdf'', ''full details'',
     ''terms and conditions'', ''certificate of insurance'',
     ''supplementary'', ''endorsement'']"

definition is_potential_document_url :: "string \<Rightarrow> string \<Rightarrow> bool" where
  "is_potential_document_url url link_text =
     (let url_lower = lower url; text_lower = lower link_text in
      list_ex (\<lambda>kw. contains url_lower kw) doc_path_keywords \<or>
      list_ex (\<lambda>kw. contains text_lower kw) doc_text_keywords)"

definition pdf_keywords :: "string list" where
  "pdf_keywords =
    [''document'', ''form'', ''download'', ''pdf'', ''policy'',
     ''wording'', ''pds'', ''disclosure'', ''legal'', ''terms'',
     ''resources'', ''publications'', ''brochure'', ''guide'',
     ''factsheet'', ''fact-sheet'', ''claim'', ''certificate'',
     ''target-market'', ''product-guide'', ''media'', ''assets'',
     ''uploads'', ''files'']"

text \<open>
  The crawler's environment is the web and the clock. A page is given as BeautifulSoup
  and \<^verbatim>\<open>urljoin\<close> present it: each anchor with its stripped \<^verbatim>\<open>href\<close>, the absolute URL
  that \<^verbatim>\<open>urljoin\<close> makes of it and its text; the absolute URLs of the \<^verbatim>\<open>iframe\<close>, \<^verbatim>\<open>embed\<close>
  and \<^verbatim>\<open>object\<close> tags; those of the \<^verbatim>\<open>data-\<close> attributes; and those of the PDF literals
  found in \<^verbatim>\<open>onclick\<close> handlers. A request for a page raises, or returns a status, a
  content type and the page. \<^verbatim>\<open>extract_from_sitemap\<close> and \<^verbatim>\<open>check_url_is_pdf_via_head\<close>
  catch their own errors and are functions of the URL. The clock is read each time the
  deadline is checked; \<open>deadline_passed n\<close> says whether reading number \<open>n\<close> is past it.
\<close>

record anchor =
  href :: string
  target :: string
  link_text :: string

record html_page =
  anchors :: "anchor list"
  embedded :: "string list"
  data_attributes :: "string list"
  onclick_matches :: "string list"

datatype page_outcome = PageError py_error | Page int string html_page

record crawl_env =
  robots_urlopen :: "string \<Rightarrow> robots_response"
  sitemap_pdfs :: "string \<Rightarrow> string list"
  http_get :: "string \<Rightarrow> page_outcome"
  head_confirms_pdf :: "string \<Rightarrow> bool"
  deadline_passed :: "nat \<Rightarrow> bool"

text \<open>
  What one session shares between its seeds and with other sessions: the visited set,
  the robots cache and the number of clock readings so far. A set is a list without
  repetitions, in insertion order.
\<close>

record crawl_state =
  cs_visited :: "string list"
  cs_cache :: robots_cache
  cs_ticks :: nat

text \<open>
  What the scan of one page changes: the queue, the PDF URLs found, the counters per
  path prefix (a \<^verbatim>\<open>defaultdict(int)\<close>) and the number of HEAD requests on this page.
\<close>

record scan =
  scan_queue :: "string list"
  scan_pdfs :: "string list"
  scan_diversity :: "(string \<times> nat) list"
  scan_heads :: nat

definition counter_of :: "(string \<times> nat) list \<Rightarrow> string \<Rightarrow> nat" where
  "counter_of d k = (case map_of d k of Some n \<Rightarrow> n | None \<Rightarrow> 0)"

definition add_pdf :: "scan \<Rightarrow> string \<Rightarrow> scan" where
  "add_pdf sc normalized =
     (if normalized \<notin> set (scan_pdfs sc) then sc\<lparr>scan_pdfs := scan_pdfs sc @ [normalized]\<rparr>
      else sc)"

text \<open>The last part of the loop over the anchors: the link is put on the queue.\<close>

definition enqueue_link ::
  "pylib \<Rightarrow> string \<Rightarrow> int \<Rightarrow> string list \<Rightarrow> scan \<Rightarrow> string \<Rightarrow> py_error + scan" where
  "enqueue_link L seed_url max_pages visited sc full_url =
     (case same_domain L seed_url full_url of
        Inl e \<Rightarrow> Inl e
      | Inr same \<Rightarrow>
          if same \<and> full_url \<notin> set visited then
            (case urlparse L full_url of
               Inl e \<Rightarrow> Inl e
             | Inr parsed \<Rightarrow>
                 (let path_prefix = join ''/'' (take 3 (split (path parsed) (CHR ''/'')));
                      n = counter_of (scan_diversity sc) path_prefix;
                      queue = scan_queue sc
                  in if n < 20 then
                       if int (length queue) < max (max_pages * 5) 50000 then
                         (let is_priority = list_ex (\<lambda>keyword. contains (lower full_url) keyword)
                                              pdf_keywords;
                              is_diverse = n < 5;
                              insert_pos = min 10 (length queue)
                          in Inr (sc\<lparr>scan_queue :=
                                      (if is_priority \<or> is_diverse
                                       then take insert_pos queue @ [full_url] @ drop insert_pos queue
                                       else queue @ [full_url]),
                                     scan_diversity :=
                                       dict_set (scan_diversity sc) path_prefix (n + 1)\<rparr>))
                       else Inr sc
                     else Inr sc))
          else Inr sc)"

text \<open>One anchor. An error of a URL function ends the scan of the page.\<close>

definition process_anchor ::
  "pylib \<Rightarrow> config \<Rightarrow> crawl_env \<Rightarrow> string \<Rightarrow> int \<Rightarrow> string list \<Rightarrow> string list \<Rightarrow>
   string list \<Rightarrow> scan \<Rightarrow> anchor \<Rightarrow> py_error + scan" where
  "process_anchor L C E seed_url max_pages keyword_filters policy_types visited sc a =
     (if href a = [] \<or> startswith (href a) ''#'' \<or> startswith (href a) ''mailto:'' \<or>
         startswith (href a) ''tel:'' \<or> startswith (href a) ''javascript:''
      then Inr sc
      else
        (let full_url = target a in
         case is_pdf_url L full_url of
           Inl e \<Rightarrow> Inl e
         | Inr True \<Rightarrow>
             (case normalize_url L C full_url of
                Inl e \<Rightarrow> Inl e
              | Inr normalized \<Rightarrow>
                  if fst (is_valid_document normalized keyword_filters policy_types)
                  then Inr (add_pdf sc normalized) else Inr sc)
         | Inr False \<Rightarrow>
             (case (if scan_heads sc < 25 then same_domain L seed_url full_url else Inr False) of
                Inl e \<Rightarrow> Inl e
              | Inr same \<Rightarrow>
                  if scan_heads sc < 25 \<and> same \<and> full_url \<notin> set visited \<and>
                     full_url \<notin> set (scan_pdfs sc) \<and>
                     is_potential_document_url full_url (link_text a)
                  then
                    (let sc = sc\<lparr>scan_heads := scan_heads sc + 1\<rparr> in
                     if head_confirms_pdf E full_url then
                       (case normalize_url L C full_url of
                          Inl e \<Rightarrow> Inl e
                        | Inr normalized \<Rightarrow> Inr (add_pdf sc normalized))
                     else enqueue_link L seed_url max_pages visited sc full_url)
                  else enqueue_link L seed_url max_pages visited sc full_url)))"

text \<open>
  A loop over the items of a page: it stops at the first error and keeps what the items
  before it changed.
\<close>

fun scan_items :: "(scan \<Rightarrow> 'a \<Rightarrow> py_error + scan) \<Rightarrow> scan \<Rightarrow> 'a list \<Rightarrow> scan \<times> py_error option" where
  "scan_items step sc [] = (sc, None)"
| "scan_items step sc (x # xs) =
     (case step sc x of Inl e \<Rightarrow> (sc, Some e) | Inr sc' \<Rightarrow> scan_items step sc' xs)"

definition process_embedded :: "pylib \<Rightarrow> config \<Rightarrow> scan \<Rightarrow> string \<Rightarrow> py_error + scan" where
  "process_embedded L C sc embed_url =
     (case is_pdf_url L embed_url of
        Inl e \<Rightarrow> Inl e
      | Inr False \<Rightarrow> Inr sc
      | Inr True \<Rightarrow>
          (case normalize_url L C embed_url of
             Inl e \<Rightarrow> Inl e
           | Inr normalized \<Rightarrow> Inr (add_pdf sc normalized)))"

definition process_onclick :: "pylib \<Rightarrow> config \<Rightarrow> string \<Rightarrow> scan \<Rightarrow> string \<Rightarrow> py_error + scan" where
  "process_onclick L C seed_url sc match_url =
     (case normalize_url L C match_url of
        Inl e \<Rightarrow> Inl e
      | Inr normalized \<Rightarrow>
          if normalized \<notin> set (scan_pdfs sc) then
            (case same_domain L seed_url match_url of
               Inl e \<Rightarrow> Inl e
             | Inr same \<Rightarrow> Inr (if same then add_pdf sc normalized else sc))
          else Inr sc)"

text \<open>
  The \<^verbatim>\<open>try\<close> statement of one iteration: the page is fetched and scanned. Every
  exception is caught and logged, so the result is the state the statement leaves.
\<close>

definition fetch_and_scan ::
  "pylib \<Rightarrow> config \<Rightarrow> crawl_env \<Rightarrow> string \<Rightarrow> int \<Rightarrow> string list \<Rightarrow> string list \<Rightarrow>
   string list \<Rightarrow> string \<Rightarrow> scan \<Rightarrow> scan" where
  "fetch_and_scan L C E seed_url max_pages keyword_filters policy_types visited url sc0 =
     (case http_get E url of
        PageError e \<Rightarrow> sc0
      | Page status ctype page \<Rightarrow>
          if status \<noteq> 200 then sc0
          else if \<not> contains (lower ctype) ''text/html'' then sc0
          else
            (let sc = sc0\<lparr>scan_heads := 0\<rparr>;
                 (sc, err) = scan_items (process_anchor L C E seed_url max_pages keyword_filters
                                           policy_types visited) sc (anchors page);
                 (sc, err) = (if err = None
                              then scan_items (process_embedded L C) sc (embedded page)
                              else (sc, err));
                 (sc, err) = (if err = None
                              then scan_items (process_embedded L C) sc (data_attributes page)
                              else (sc, err));
                 (sc, err) = (if err = None
                              then scan_items (process_onclick L C seed_url) sc (onclick_matches page)
                              else (sc, err))
             in sc))"

text \<open>
  The \<^verbatim>\<open>while\<close> loop of \<^verbatim>\<open>crawl_domain\<close>. \<open>time_limit\<close> says whether the session has a
  deadline. The loop returns the PDF URLs and the number of pages crawled, or the
  \<^verbatim>\<open>ValueError\<close> that \<^verbatim>\<open>same_domain\<close> raises outside the \<^verbatim>\<open>try\<close> statement.
\<close>

function crawl_loop ::
  "pylib \<Rightarrow> config \<Rightarrow> crawl_env \<Rightarrow> string \<Rightarrow> int \<Rightarrow> string list \<Rightarrow> string list \<Rightarrow> bool \<Rightarrow>
   int \<Rightarrow> scan \<Rightarrow> crawl_state \<Rightarrow> (py_error + string list \<times> int) \<times> crawl_state" where
  "crawl_loop L C E seed_url max_pages keyword_filters policy_types time_limit
     pages_crawled sc st =
     (if scan_queue sc = [] \<or> \<not> pages_crawled < max_pages
      then (Inr (scan_pdfs sc, pages_crawled), st)
      else if time_limit \<and> deadline_passed E (cs_ticks st)
      then (Inr (scan_pdfs sc, pages_crawled), st\<lparr>cs_ticks := cs_ticks st + 1\<rparr>)
      else
        (let st = (if time_limit then st\<lparr>cs_ticks := cs_ticks st + 1\<rparr> else st) in
         if int (length (cs_visited st)) > max (max_pages * 5) 100000
         then (Inr (scan_pdfs sc, pages_crawled), st)
         else
           (let url = (if CRAWL_MODE C = ''depth'' then last (scan_queue sc) else hd (scan_queue sc));
                sc = sc\<lparr>scan_queue := (if CRAWL_MODE C = ''depth'' then butlast (scan_queue sc)
                                        else tl (scan_queue sc))\<rparr>
            in if url \<in> set (cs_visited st)
               then crawl_loop L C E seed_url max_pages keyword_filters policy_types time_limit
                      pages_crawled sc st
               else
                 (let (can_fetch_result, cache) =
                        can_fetch L C (robots_urlopen E) (cs_cache st) url;
                      st = st\<lparr>cs_cache := cache, cs_visited := cs_visited st @ [url]\<rparr>
                  in if \<not> can_fetch_result
                     then crawl_loop L C E seed_url max_pages keyword_filters policy_types
                            time_limit pages_crawled sc st
                     else
                       (case same_domain L seed_url url of
                          Inl e \<Rightarrow> (Inl e, st)
                        | Inr False \<Rightarrow>
                            crawl_loop L C E seed_url max_pages keyword_filters policy_types
                              time_limit pages_crawled sc st
                        | Inr True \<Rightarrow>
                            crawl_loop L C E seed_url max_pages keyword_filters policy_types
                              time_limit (pages_crawled + 1)
                              (fetch_and_scan L C E seed_url max_pages keyword_filters
                                 policy_types (cs_visited st) url sc)
                              st)))))"
  by pat_completeness auto
termination
  by (relation "inv_image (less_than <*lex*> less_than)
        (\<lambda>(L, C, E, seed_url, max_pages, keyword_filters, policy_types, time_limit,
            pages_crawled, sc, st). (nat (max_pages - pages_crawled), length (scan_queue sc)))")
     (auto simp: Let_def split: if_splits)

text \<open>\<^verbatim>\<open>crawl_domain\<close>, called with the session's shared visited set.\<close>

definition crawl_domain ::
  "pylib \<Rightarrow> config \<Rightarrow> crawl_env \<Rightarrow> string \<Rightarrow> int \<Rightarrow> string list \<Rightarrow> string list \<Rightarrow> bool \<Rightarrow>
   crawl_state \<Rightarrow> (py_error + string list \<times> int) \<times> crawl_state" where
  "crawl_domain L C E seed_url max_pages keyword_filters policy_types time_limit st =
     (case is_pdf_url L seed_url of
        Inl e \<Rightarrow> (Inl e, st)
      | Inr True \<Rightarrow>
          (case normalize_url L C seed_url of
             Inl e \<Rightarrow> (Inl e, st)
           | Inr normalized \<Rightarrow>
               if fst (is_valid_document normalized keyword_filters policy_types)
               then (Inr ([normalized], 1), st) else (Inr ([], 1), st))
      | Inr False \<Rightarrow>
          (case urlparse L seed_url of
             Inl e \<Rightarrow> (Inl e, st)
           | Inr parsed \<Rightarrow>
               (let base_url = scheme parsed @ ''://'' @ netloc parsed;
                    sitemap = sitemap_pdfs E base_url;
                    valid_pdfs = filter (\<lambda>pdf_url. fst (is_valid_document pdf_url keyword_filters
                                                          policy_types)) sitemap
                in if sitemap \<noteq> [] \<and> valid_pdfs \<noteq> [] then (Inr (valid_pdfs, 1), st)
                   else crawl_loop L C E seed_url max_pages keyword_filters policy_types time_limit
                          0 \<lparr>scan_queue = [seed_url], scan_pdfs = [], scan_diversity = [],
                             scan_heads = 0\<rparr> st)))"

section \<open>Classification engine\<close>

text \<open>
  \<^verbatim>\<open>classify_document\<close> computes with Python floats. The model computes with real
  numbers: weights, boosts and factors are the decimal fractions the source writes, and
  \<^verbatim>\<open>round(x, 2)\<close> rounds to the nearest hundredth, ties to the even one.
\<close>

definition CLASSIFICATION_RULES :: "(string \<times> string list \<times> real) list" where
  "CLASSIFICATION_RULES =
    [(''PDS'', [''pds'', ''product disclosure'', ''product-disclosure'', ''productdisclosure'',
        ''combined fsg'', ''financial services guide''], 1.0),
     (''Policy Wording'', [''policy wording'', ''policy-wording'', ''policywording'', ''wording'',
        ''policy document'', ''policy schedule'', ''terms and conditions'',
        ''conditions of cover'', ''cover wording''], 0.9),
     (''Fact Sheet'', [''fact sheet'', ''fact-sheet'', ''factsheet'', ''key facts'', ''keyfacts'',
        ''key information'', ''summary of cover'', ''cover summary''], 0.85),
     (''TMD'', [''tmd'', ''target market'', ''target-market'', ''targetmarket'',
        ''target market determination''], 0.9),
     (''Product Guide'', [''product guide'', ''product-guide'', ''productguide'', ''guide'',
        ''brochure'', ''overview''], 0.7),
     (''Certificate of Insurance'', [''certificate of insurance'', ''certificate-of-insurance'',
        ''coi'', ''proof of insurance''], 0.85),
     (''Claim Form'', [''claim form'', ''claim-form'', ''claimform'', ''claims form'',
        ''make a claim'', ''lodge a claim''], 0.8)]"

definition POLICY_TYPE_RULES :: "(string \<times> string list) list" where
  "POLICY_TYPE_RULES =
    [(''Motor'', [''motor'', ''vehicle'', ''car'', ''auto'', ''comprehensive'',
        ''third party'', ''tpft'', ''third-party'', ''automotive'']),
     (''Home'', [''home'', ''house'', ''property'', ''building'', ''dwelling'',
        ''homeowner'', ''home-owner'', ''residential'']),
     (''Contents'', [''contents'', ''contents plus'', ''contents-plus'', ''personal belongings'',
        ''household contents'', ''valuables'']),
     (''Landlord'', [''landlord'', ''rental'', ''rental property'', ''investment property'',
        ''landlords'']),
     (''Travel'', [''travel'', ''trip'', ''overseas'', ''holiday'', ''international'']),
     (''Life'', [''life'', ''lif'', ''living'', ''death'', ''tpd'',
        ''income protection'', ''trauma'', ''funeral'']),
     (''Health'', [''health'', ''medical'', ''hospital'', ''dental'', ''optical'',
        ''surgical'', ''wellness'']),
     (''Business'', [''business'', ''commercial'', ''liability'', ''sme'',
        ''professional indemnity'', ''public liability'', ''trade'']),
     (''Pet'', [''pet'', ''dog'', ''cat'', ''animal'', ''puppy'', ''kitten'',
        ''pet insurance'', ''pet-insurance'', ''petinsurance'',
        ''veterinary'', ''veterinarian'', ''vet cover'', ''vet care'',
        ''vet insurance'', ''companion animal'', ''canine'', ''feline'',
        ''breed'', ''pedigree'', ''pet health'', ''pet care'', ''pet plan'',
        ''animal cover'', ''pet policy'', ''fur baby'', ''dog insurance'',
        ''cat insurance'', ''pet protection'', ''vet bill'', ''vet fees'',
        ''pet medical'', ''pet accident'', ''pet illness'']),
     (''Marine'', [''marine'', ''boat'', ''watercraft'', ''yacht'', ''vessel''])]"

definition KNOWN_INSURERS :: "(string \<times> string) list" where
  "KNOWN_INSURERS =
    [(''aainsurance'', ''AA Insurance''), (''aa-insurance'', ''AA Insurance''),
     (''ami'', ''AMI Insurance''), (''tower'', ''Tower Insurance''),
     (''state'', ''State Insurance''), (''aia'', ''AIA New Zealand''),
     (''southern-cross'', ''Southern Cross''), (''southerncross'', ''Southern Cross''),
     (''partners-life'', ''Partners Life''), (''partnerslife'', ''Partners Life''),
     (''nib'', ''nib Insurance''), (''fidelity'', ''Fidelity Life''),
     (''cigna'', ''Cigna Insurance''), (''asteron'', ''Asteron Life''),
     (''suncorp'', ''Suncorp''), (''iag'', ''IAG''), (''vero'', ''Vero Insurance''),
     (''chubb'', ''Chubb Insurance''), (''allianz'', ''Allianz''),
     (''zurich'', ''Zurich Insurance''), (''qbe'', ''QBE Insurance''),
     (''tmi'', ''TMI (The Mutual Insurance)''), (''initio'', ''Initio Insurance''),
     (''ando'', ''Ando Insurance''), (''youi'', ''Youi Insurance''),
     (''trade-me'', ''Trade Me Insurance''), (''trademe'', ''Trade Me Insurance''),
     (''pinnacle'', ''Pinnacle Life''), (''accuro'', ''Accuro Health Insurance'')]"

text \<open>
  Three warnings of the source contain a dash that is not an ASCII character; it is
  written \<^verbatim>\<open>--\<close> here.
\<close>

definition WARN_TYPE_UNCLEAR :: string where
  "WARN_TYPE_UNCLEAR = ''Document type unclear -- policy category detected from filename/text''"

definition WARN_LOW_CONFIDENCE :: string where
  "WARN_LOW_CONFIDENCE = ''Low confidence -- manual review recommended''"

definition WARN_VERY_LOW_CONFIDENCE :: string where
  "WARN_VERY_LOW_CONFIDENCE = ''Very low confidence -- requires manual review''"

text \<open>\<^verbatim>\<open>if pdf_text_sample\<close>: a text sample that is present and not empty.\<close>

definition text_lower :: "string option \<Rightarrow> string option" where
  "text_lower pdf_text_sample =
     (case pdf_text_sample of None \<Rightarrow> None
      | Some t \<Rightarrow> if t = [] then None else Some (lower t))"

definition in_text :: "string option \<Rightarrow> string \<Rightarrow> bool" where
  "in_text pdf_text_sample kw =
     (case text_lower pdf_text_sample of None \<Rightarrow> False | Some t \<Rightarrow> contains t kw)"

text \<open>Stages 1 and 2: the document type with the best keyword score.\<close>

definition keyword_score :: "string \<Rightarrow> string \<Rightarrow> string option \<Rightarrow> real \<Rightarrow> string \<Rightarrow> real" where
  "keyword_score url_lower filename_lower pdf_text_sample weight keyword =
     weight + (if contains url_lower keyword then 0.05 else 0)
            + (if contains filename_lower keyword then 0.05 else 0)
            + (if in_text pdf_text_sample keyword then 0.1 else 0)"

definition doc_type_step ::
  "string \<Rightarrow> string \<Rightarrow> string option \<Rightarrow> string \<Rightarrow> real \<times> string \<times> string \<Rightarrow>
   string \<times> string \<times> real \<Rightarrow> real \<times> string \<times> string" where
  "doc_type_step url_lower filename_lower pdf_text_sample combined st rule =
     (case (st, rule) of ((best_match_score, classification, matched_source), (doc_type, keyword, weight)) \<Rightarrow>
        if contains combined keyword then
          (let score = keyword_score url_lower filename_lower pdf_text_sample weight keyword in
           if score > best_match_score
           then (score, doc_type, ''matched '' @ [CHR 0x27] @ keyword @ [CHR 0x27])
           else st)
        else st)"

definition doc_type_stage ::
  "string \<Rightarrow> string \<Rightarrow> string option \<Rightarrow> real \<times> string \<times> string" where
  "doc_type_stage url_lower filename_lower pdf_text_sample =
     (let combined = url_lower @ '' '' @ filename_lower @
            (case text_lower pdf_text_sample of None \<Rightarrow> [] | Some t \<Rightarrow> '' '' @ t)
      in foldl (doc_type_step url_lower filename_lower pdf_text_sample combined)
           (0, ''Unclassified'', [])
           (concat (map (\<lambda>(doc_type, keywords, weight). map (\<lambda>k. (doc_type, k, weight)) keywords)
              CLASSIFICATION_RULES)))"

text \<open>
  Stage 3: the policy category with the best score. \<^verbatim>\<open>int(score * 1.2)\<close> truncates; the
  score is not negative, and the product is taken exactly.
\<close>

definition policy_keyword_points :: "string \<Rightarrow> string \<Rightarrow> string option \<Rightarrow> string \<Rightarrow> int" where
  "policy_keyword_points url_lower filename_lower pdf_text_sample kw =
     (let kw_is_multiword = CHR '' '' \<in> set kw \<or> CHR ''-'' \<in> set kw in
      (if contains url_lower kw then (if kw_is_multiword then 4 else 2) else 0) +
      (if contains filename_lower kw then (if kw_is_multiword then 6 else 3) else 0) +
      (if in_text pdf_text_sample kw then (if kw_is_multiword then 3 else 1) else 0))"

definition policy_type_score :: "string \<Rightarrow> string \<Rightarrow> string option \<Rightarrow> string \<times> string list \<Rightarrow> int" where
  "policy_type_score url_lower filename_lower pdf_text_sample rule =
     (case rule of (pt_name, pt_keywords) \<Rightarrow>
        (let score = sum_list (map (policy_keyword_points url_lower filename_lower pdf_text_sample)
                                pt_keywords)
         in if pt_name = ''Pet'' \<and> score > 0 then (score * 6) div 5 else score))"

definition policy_type_stage ::
  "string \<Rightarrow> string \<Rightarrow> string option \<Rightarrow> string \<Rightarrow> int \<times> string" where
  "policy_type_stage url_lower filename_lower pdf_text_sample policy_type =
     foldl (\<lambda>(best_pt_score, detected_policy_type) rule.
              (let score = policy_type_score url_lower filename_lower pdf_text_sample rule in
               if score > best_pt_score then (score, fst rule)
               else (best_pt_score, detected_policy_type)))
       (0, policy_type) POLICY_TYPE_RULES"

text \<open>
  The confidence before the file-size adjustment, with the classification and the
  warnings so far.
\<close>

definition confidence_stage ::
  "string \<Rightarrow> string \<Rightarrow> real \<Rightarrow> string \<Rightarrow> int \<Rightarrow> real \<times> string \<times> string list" where
  "confidence_stage url_lower filename_lower best_match_score0 classification best_pt_score =
     (let best_match_score =
            (if best_pt_score > 0 \<and> best_match_score0 > 0
             then min (best_match_score0 + 0.05) 1.0 else best_match_score0)
      in if best_match_score > 0 then (min best_match_score 1.0, classification, [])
         else if best_pt_score > 0
         then (min (0.4 + real_of_int best_pt_score * 0.05) 0.7, ''General Document'',
               [WARN_TYPE_UNCLEAR])
         else if contains url_lower ''.pdf'' \<or> contains filename_lower ''.pdf''
         then (0.3, ''General Document'', [''No classification keyword match''])
         else (0.1, ''Unknown'', [''Unable to classify'']))"

text \<open>
  The adjustment for the file size. \<^verbatim>\<open>if file_size\<close> holds for a size that is present
  and not zero.
\<close>

definition size_adjust :: "int option \<Rightarrow> real \<times> string list \<Rightarrow> real \<times> string list" where
  "size_adjust file_size cw =
     (case cw of (confidence, warnings) \<Rightarrow>
        (case file_size of
           None \<Rightarrow> (confidence, warnings)
         | Some n \<Rightarrow>
             if n = 0 then (confidence, warnings)
             else if n < 10000 then (confidence * 0.5, warnings @ [''Very small file''])
             else if n < 50000 then (confidence * 0.8, warnings @ [''Small file size''])
             else if n > 20000000 then (confidence * 0.9, warnings @ [''Very large file''])
             else (confidence, warnings)))"

definition status_stage :: "real \<times> string list \<Rightarrow> string \<times> string list" where
  "status_stage cw =
     (case cw of (confidence, warnings) \<Rightarrow>
        if confidence \<ge> 0.85 then (''auto-approved'', warnings)
        else if confidence \<ge> 0.5 then
          (''needs-review'',
           if ''Low confidence'' \<notin> set warnings then warnings @ [WARN_LOW_CONFIDENCE] else warnings)
        else (''needs-review'', warnings @ [WARN_VERY_LOW_CONFIDENCE]))"

definition round2 :: "real \<Rightarrow> real" where
  "round2 x =
     (let y = x * 100; f = \<lfloor>y\<rfloor>; d = y - of_int f in
      of_int (if d < 1 / 2 then f else if d > 1 / 2 then f + 1 else if even f then f else f + 1) / 100)"

text \<open>The insurer name: the first pattern of the table that occurs in the domain.\<close>

definition insurer_of_domain :: "string \<Rightarrow> string option" where
  "insurer_of_domain domain =
     (let domain_base = (if domain \<noteq> [] then hd (split domain (CHR ''.'')) else [])
      in map_option snd
           (List.find (\<lambda>(pattern, name). contains domain_base pattern \<or> contains domain pattern)
              KNOWN_INSURERS))"

record classification_result =
  classification :: string
  confidence :: real
  status :: string
  warnings :: "string list"
  insurer_name :: "string option"
  matched_source :: string
  detected_policy_type :: string
  url_domain :: string

text \<open>
  \<^verbatim>\<open>classify_document(url, filename, policy_type, file_size, pdf_text_sample)\<close>. The
  metadata of the result repeats the file size and the detected policy type next to the
  domain and the time of the call; the domain is kept.
\<close>

definition classify_document ::
  "pylib \<Rightarrow> string \<Rightarrow> string \<Rightarrow> string \<Rightarrow> int option \<Rightarrow> string option \<Rightarrow>
   py_error + classification_result" where
  "classify_document L url filename policy_type file_size pdf_text_sample =
     (let url_lower = lower url; filename_lower = lower filename;
          (best_match_score, cls, src) = doc_type_stage url_lower filename_lower pdf_text_sample;
          (best_pt_score, detected) =
            policy_type_stage url_lower filename_lower pdf_text_sample policy_type;
          (conf, cls, warns) =
            confidence_stage url_lower filename_lower best_match_score cls best_pt_score;
          (conf, warns) = size_adjust file_size (conf, warns);
          (st, warns) = status_stage (conf, warns)
      in case urlparse L url of
           Inl e \<Rightarrow> Inl e
         | Inr parsed \<Rightarrow>
             (let domain = replace (lower (netloc parsed)) ''www.'' [] in
              Inr \<lparr>classification = cls, confidence = round2 conf, status = st,
                    warnings = warns, insurer_name = insurer_of_domain domain,
                    matched_source = src, detected_policy_type = detected,
                    url_domain = domain\<rparr>))"

section \<open>Streaming downloader\<close>

text \<open>
  \<^verbatim>\<open>download_pdf_streaming\<close> talks to the network, the clock and the file system. What
  they answer is the environment of one call:
  \<^item> whether \<^verbatim>\<open>verify_path_safety\<close> accepts the destination (it catches its own errors);
  \<^item> what \<^verbatim>\<open>session.get\<close> does: it raises, or returns a response with a status code,
    the three headers the function reads, and a body;
  \<^item> the body as \<^verbatim>\<open>iter_content\<close> delivers it: each chunk comes with the seconds elapsed
    when the time limit is checked and with whether writing it succeeds, and the
    stream can break off with an error;
  \<^item> whether \<^verbatim>\<open>mkdir\<close> and \<^verbatim>\<open>replace\<close> succeed, and the name of the file that
    \<^verbatim>\<open>NamedTemporaryFile\<close> creates (none when it raises);
  \<^item> the SHA-256 digest as a function of the bytes.
  \<^item> whether removing the temporary file succeeds: \<^verbatim>\<open>temp_path.unlink()\<close> in the loop,
    and \<^verbatim>\<open>temp_path.exists()\<close> followed by \<^verbatim>\<open>temp_path.unlink()\<close> in the handlers, raise
    \<^verbatim>\<open>OSError\<close> when it does not.
  \<^verbatim>\<open>Content-Length\<close> is given after \<^verbatim>\<open>int()\<close>: missing or empty, not a number (\<^verbatim>\<open>int\<close>
  raises \<^verbatim>\<open>ValueError\<close>), or a number. The file system maps a path to the contents of
  the file there.
\<close>

datatype length_header = NoLength | BadLength | Length int

datatype stream_event = Chunk string int bool | StreamError py_error

record http_response =
  status_code :: int
  content_type :: string
  content_disposition :: string
  content_length :: length_header
  body :: "stream_event list"

datatype get_outcome = GetRaises py_error | Response http_response

record download_env =
  path_safe :: bool
  session_get :: get_outcome
  mkdir_ok :: bool
  temp_file :: "string option"
  replace_ok :: bool
  unlink_ok :: bool
  sha256 :: "string \<Rightarrow> string"

type_synonym filesystem = "string \<rightharpoonup> string"

record download_result =
  file_size :: int
  file_hash :: string

text \<open>
  The loop over the chunks, with the bytes counted and the bytes written so far. It
  ends with the whole body written, with one of the two limits exceeded, or with an
  error; each time with the bytes written until then.
\<close>

datatype loop_result = Done int string | TooLarge string | TooSlow string | Raised py_error string

fun stream_loop :: "config \<Rightarrow> stream_event list \<Rightarrow> int \<Rightarrow> string \<Rightarrow> loop_result" where
  "stream_loop C [] bytes_downloaded written = Done bytes_downloaded written"
| "stream_loop C (StreamError e # rest) bytes_downloaded written = Raised e written"
| "stream_loop C (Chunk chunk elapsed write_ok # rest) bytes_downloaded written =
     (if chunk = [] then stream_loop C rest bytes_downloaded written
      else
        (let bytes_downloaded = bytes_downloaded + int (length chunk) in
         if bytes_downloaded > MAX_FILE_SIZE_BYTES C then TooLarge written
         else if elapsed > MAX_DOWNLOAD_TIME C then TooSlow written
         else if \<not> write_ok then Raised OSError written
         else stream_loop C rest bytes_downloaded (written @ chunk)))"

text \<open>
  The \<^verbatim>\<open>with\<close> block and the rename after it, once the temporary file exists: what
  they return or raise, and the file system.
\<close>

definition stream_to_temp ::
  "config \<Rightarrow> download_env \<Rightarrow> string \<Rightarrow> filesystem \<Rightarrow> string \<Rightarrow> stream_event list \<Rightarrow>
   (py_error + download_result option) \<times> filesystem" where
  "stream_to_temp C E save_path fs temp_path evs =
     (case stream_loop C evs 0 [] of
        TooLarge written \<Rightarrow>
          if unlink_ok E then (Inr None, fs(temp_path := None))
          else (Inl OSError, fs(temp_path \<mapsto> written))
      | TooSlow written \<Rightarrow>
          if unlink_ok E then (Inr None, fs(temp_path := None))
          else (Inl OSError, fs(temp_path \<mapsto> written))
      | Raised e written \<Rightarrow> (Inl e, fs(temp_path \<mapsto> written))
      | Done n written \<Rightarrow>
          if \<not> replace_ok E then (Inl OSError, fs(temp_path \<mapsto> written))
          else (Inr (Some \<lparr>file_size = n, file_hash = sha256 E written\<rparr>),
                (fs(temp_path := None))(save_path \<mapsto> written)))"

text \<open>
  The body of the \<^verbatim>\<open>try\<close> statement: what it returns or raises, the value of
  \<^verbatim>\<open>temp_path\<close> at that point, and the file system.
\<close>

definition download_body ::
  "config \<Rightarrow> download_env \<Rightarrow> string \<Rightarrow> string \<Rightarrow> filesystem \<Rightarrow>
   (py_error + download_result option) \<times> string option \<times> filesystem" where
  "download_body C E url save_path fs =
     (if \<not> path_safe E then (Inr None, None, fs)
      else
        (case session_get E of
           GetRaises e \<Rightarrow> (Inl e, None, fs)
         | Response response \<Rightarrow>
             if status_code response \<noteq> 200 then (Inr None, None, fs)
             else
               (let ctype = lower (content_type response);
                    content_disp = lower (content_disposition response);
                    url_has_pdf = contains (lower url) ''.pdf'';
                    is_pdf_content = contains ctype ''application/pdf'';
                    is_octet = contains ctype ''application/octet-stream'';
                    disp_has_pdf = contains content_disp ''.pdf''
                in if \<not> is_pdf_content \<and> \<not> url_has_pdf \<and> \<not> disp_has_pdf \<and> \<not> is_octet
                   then (Inr None, None, fs)
                   else
                     (case content_length response of
                        BadLength \<Rightarrow> (Inl ValueError, None, fs)
                      | cl \<Rightarrow>
                          if (case cl of Length n \<Rightarrow> n > MAX_FILE_SIZE_BYTES C | _ \<Rightarrow> False)
                          then (Inr None, None, fs)
                          else if \<not> mkdir_ok E then (Inl OSError, None, fs)
                          else
                            (case temp_file E of
                               None \<Rightarrow> (Inl OSError, None, fs)
                             | Some temp_path \<Rightarrow>
                                 (case stream_to_temp C E save_path fs temp_path (body response) of
                                    (res, fs') \<Rightarrow> (res, Some temp_path, fs')))))))"

text \<open>
  \<^verbatim>\<open>download_pdf_streaming(url, save_path, session, crawl_id)\<close>: the body under its three
  handlers. Together they catch every \<^verbatim>\<open>Exception\<close>, and each does the same: it removes
  the temporary file if there is one and returns \<^verbatim>\<open>None\<close>. The removal is not guarded, so
  an error of the removal leaves the function.
\<close>

definition download_pdf_streaming ::
  "config \<Rightarrow> download_env \<Rightarrow> string \<Rightarrow> string \<Rightarrow> filesystem \<Rightarrow>
   (py_error + download_result option) \<times> filesystem" where
  "download_pdf_streaming C E url save_path fs =
     (case download_body C E url save_path fs of
        (Inr r, temp_path, fs') \<Rightarrow> (Inr r, fs')
      | (Inl e, temp_path, fs') \<Rightarrow>
          (case temp_path of
             Some p \<Rightarrow>
               if p \<in> dom fs'
               then (if unlink_ok E then (Inr None, fs'(p := None)) else (Inl OSError, fs'))
               else (Inr None, fs')
           | None \<Rightarrow> (Inr None, fs')))"

section \<open>Session orchestrator\<close>

text \<open>
  The rows of the two tables that \<^verbatim>\<open>run_crawl_session\<close> reads and writes (the classes
  \<^verbatim>\<open>CrawlSession\<close> and \<^verbatim>\<open>Document\<close> of \<^verbatim>\<open>app.models\<close>, with the columns the function uses).
  A counter that is \<^verbatim>\<open>NULL\<close> counts as zero, as \<^verbatim>\<open>(session.errors_count or 0)\<close> reads it,
  and a document without a file path has the empty path.
\<close>

record crawl_session =
  s_id :: int
  s_country :: string
  s_max_pages :: int
  s_max_minutes :: int
  s_seed_urls :: "string list"
  s_policy_types :: "string list"
  s_keyword_filters :: "string list"
  s_status :: string
  s_progress_pct :: int
  s_pages_scanned :: int
  s_pdfs_found :: int
  s_pdfs_downloaded :: int
  s_pdfs_filtered :: int
  s_errors_count :: int

record document =
  d_crawl_session_id :: int
  d_source_url :: string
  d_insurer :: string
  d_local_file_path :: string
  d_file_size :: int
  d_file_hash :: string
  d_country :: string
  d_policy_type :: string
  d_classification :: string
  d_confidence :: real
  d_status :: string
  d_warnings :: "string list option"

text \<open>
  Everything the session can change: its own row (if it exists), the documents, the
  files, the crawler's shared state and the registry of active crawls. A write to the
  database is committed before the next statement that can raise, so the rows here are
  the committed ones.
\<close>

record world =
  w_session :: "crawl_session option"
  w_documents :: "document list"
  w_fs :: filesystem
  w_crawl :: crawl_state
  w_active :: registry

text \<open>
  The environment of a session: the crawler's, the download environment of each URL,
  the text that \<^verbatim>\<open>extract_pdf_text_sample\<close> gets out of a file's bytes, whether the
  duplicate query for a URL raises \<^verbatim>\<open>SQLAlchemyError\<close>, whether \<^verbatim>\<open>mkdir\<close> of a policy
  directory and \<^verbatim>\<open>shutil.move\<close> to a path succeed, and the time at which the session
  registers.
\<close>

record session_env =
  se_crawl :: crawl_env
  se_download :: "string \<Rightarrow> download_env"
  se_pdf_text :: "string \<Rightarrow> string option"
  se_query_fails :: "string \<Rightarrow> bool"
  se_mkdir_ok :: "string \<Rightarrow> bool"
  se_move_ok :: "string \<Rightarrow> bool"
  se_now :: int

subsection \<open>Crawling the seeds\<close>

record seeds_state =
  all_pdf_urls :: "string list"
  total_pages :: int
  remaining_budget :: int
  seeds_crawl :: crawl_state
  seeds_session :: crawl_session

text \<open>\<^verbatim>\<open>all_pdf_urls.update(pdf_urls)\<close>.\<close>

definition set_update :: "string list \<Rightarrow> string list \<Rightarrow> string list" where
  "set_update s xs = foldl (\<lambda>acc x. if x \<in> set acc then acc else acc @ [x]) s xs"

text \<open>
  The loop over the seeds, from seed number \<open>idx\<close> on. It returns the error that ended
  it, if any, and the state it leaves. The progress percentage is computed exactly.
\<close>

fun crawl_seeds ::
  "pylib \<Rightarrow> config \<Rightarrow> crawl_env \<Rightarrow> bool \<Rightarrow> int \<Rightarrow> int \<Rightarrow> int \<Rightarrow> string list \<Rightarrow> seeds_state \<Rightarrow>
   py_error option \<times> seeds_state" where
  "crawl_seeds L C E time_limit num_seeds pages_per_seed idx [] S = (None, S)"
| "crawl_seeds L C E time_limit num_seeds pages_per_seed idx (seed_url # rest) S =
     (if time_limit \<and> deadline_passed E (cs_ticks (seeds_crawl S))
      then (None, S\<lparr>seeds_crawl := (seeds_crawl S)\<lparr>cs_ticks := cs_ticks (seeds_crawl S) + 1\<rparr>\<rparr>)
      else
        (let S = (if time_limit
                  then S\<lparr>seeds_crawl := (seeds_crawl S)\<lparr>cs_ticks := cs_ticks (seeds_crawl S) + 1\<rparr>\<rparr>
                  else S)
         in if remaining_budget S \<le> 0 then (None, S)
            else
              (let seed_budget = min pages_per_seed (remaining_budget S) in
               case urlparse L seed_url of
                 Inl e \<Rightarrow> (Some e, S)
               | Inr seed_parsed \<Rightarrow>
                   (case crawl_domain L C E seed_url seed_budget
                           (s_keyword_filters (seeds_session S)) (s_policy_types (seeds_session S))
                           time_limit (seeds_crawl S) of
                      (Inl e, cs) \<Rightarrow> (Some e, S\<lparr>seeds_crawl := cs\<rparr>)
                    | (Inr (pdf_urls, pages_crawled), cs) \<Rightarrow>
                        (let urls = set_update (all_pdf_urls S) pdf_urls;
                             total = total_pages S + pages_crawled;
                             seed_progress = (idx * 50) div max 1 num_seeds
                         in crawl_seeds L C E time_limit num_seeds pages_per_seed (idx + 1) rest
                              (S\<lparr>all_pdf_urls := urls, total_pages := total,
                                 remaining_budget := remaining_budget S - pages_crawled,
                                 seeds_crawl := cs,
                                 seeds_session := (seeds_session S)
                                   \<lparr>s_pages_scanned := total,
                                    s_pdfs_found := int (length urls),
                                    s_progress_pct := min 50 seed_progress\<rparr>\<rparr>))))))"

subsection \<open>Downloading the candidates\<close>

text \<open>\<^verbatim>\<open>extract_insurer_name(url)\<close>.\<close>

definition extract_insurer_name :: "pylib \<Rightarrow> string \<Rightarrow> py_error + string" where
  "extract_insurer_name L url =
     (case urlparse L url of
        Inl e \<Rightarrow> Inl e
      | Inr parsed \<Rightarrow>
          (let domain = replace (netloc parsed) ''www.'' [];
               parts = split domain (CHR ''.'');
               raw_name = (if parts \<noteq> [] then title L (hd parts) else ''Unknown'')
           in Inr (sanitize_filename raw_name)))"

text \<open>\<^verbatim>\<open>os.path.basename(path)\<close>: what follows the last slash.\<close>

definition basename :: "string \<Rightarrow> string" where
  "basename p = rev (takeWhile (\<lambda>c. c \<noteq> CHR ''/'') (rev p))"

text \<open>
  The two loops that look for a free file name. They end when a free name is found; on a
  file system where every candidate name is taken they do not end, and the value is
  \<open>None\<close>.
\<close>

partial_function (option) unique_filename ::
  "filesystem \<Rightarrow> string \<Rightarrow> string \<Rightarrow> string \<Rightarrow> int \<Rightarrow> string option" where
  "unique_filename fs dir base_name filename counter =
     (if dir @ ''/'' @ filename \<notin> dom fs then Some filename
      else unique_filename fs dir base_name (base_name @ ''_'' @ str_int counter @ ''.pdf'')
             (counter + 1))"

partial_function (option) free_move_path ::
  "filesystem \<Rightarrow> string \<Rightarrow> string \<Rightarrow> string \<Rightarrow> string \<Rightarrow> int \<Rightarrow> string option" where
  "free_move_path fs policy_dir base ext new_local_path move_counter =
     (if new_local_path \<notin> dom fs then Some new_local_path
      else free_move_path fs policy_dir base ext
             (policy_dir @ ''/'' @ base @ ''_'' @ str_int move_counter @ ext) (move_counter + 1))"

text \<open>
  The local variables of the second phase. \<^verbatim>\<open>download_count\<close> is a local variable of
  \<^verbatim>\<open>run_crawl_session\<close> too, because the function assigns to it, but no statement binds
  it before it is read: it is unbound.
\<close>

record counters =
  downloaded_count :: int
  filtered_count :: int
  duplicate_count :: int
  error_count :: int
  download_count :: "int option"

record phase2 =
  p_counters :: counters
  p_session :: crawl_session
  p_documents :: "document list"
  p_fs :: filesystem
  p_ticks :: nat

text \<open>\<^verbatim>\<open>x += 1\<close> on a local variable: \<^verbatim>\<open>UnboundLocalError\<close> when it is unbound.\<close>

definition increment_local :: "int option \<Rightarrow> py_error + int option" where
  "increment_local v = (case v of None \<Rightarrow> Inl UnboundLocalError | Some n \<Rightarrow> Inr (Some (n + 1)))"

text \<open>
  \<^verbatim>\<open>db.query(Document).filter(Document.file_hash == h).first()\<close>: the position of the
  first document with that digest.
\<close>

definition first_with_hash :: "document list \<Rightarrow> string \<Rightarrow> nat option" where
  "first_with_hash docs h =
     (if list_ex (\<lambda>d. d_file_hash d = h) docs
      then Some (length (takeWhile (\<lambda>d. d_file_hash d \<noteq> h) docs)) else None)"

text \<open>The handler of \<^verbatim>\<open>SQLAlchemyError\<close> inside the loop, and the branch of a failed download.\<close>

definition count_error :: "phase2 \<Rightarrow> phase2" where
  "count_error P =
     P\<lparr>p_counters := (p_counters P)\<lparr>error_count := error_count (p_counters P) + 1\<rparr>,
       p_session := (p_session P)\<lparr>s_errors_count := s_errors_count (p_session P) + 1\<rparr>\<rparr>"

text \<open>
  The classification pipeline for a download that is not a duplicate: the file is
  classified, moved to the directory of its policy type and recorded as a new document.
\<close>

definition store_document ::
  "pylib \<Rightarrow> session_env \<Rightarrow> config \<Rightarrow> int \<Rightarrow> int \<Rightarrow> string \<Rightarrow> string \<Rightarrow> string \<Rightarrow> string \<Rightarrow>
   string option \<Rightarrow> download_result \<Rightarrow> phase2 \<Rightarrow> (py_error option \<times> phase2) option" where
  "store_document L E C idx n_candidates pdf_url insurer filename local_path policy_type
     download_result P =
     (let pdf_text = (case p_fs P local_path of Some bytes \<Rightarrow> se_pdf_text E bytes | None \<Rightarrow> None);
          policy_type' = (case policy_type of Some t \<Rightarrow> if t = [] then ''General'' else t
                          | None \<Rightarrow> ''General'')
      in case classify_document L pdf_url filename policy_type'
                (Some (file_size download_result)) pdf_text of
           Inl e \<Rightarrow> Some (Some e, P)
         | Inr res \<Rightarrow>
             (let doc_insurer = (case insurer_name res of
                                   Some i \<Rightarrow> if i = [] then insurer else i | None \<Rightarrow> insurer);
                  doc_policy_type = (if detected_policy_type res \<noteq> [] then detected_policy_type res
                                     else policy_type');
                  policy_dir = RAW_STORAGE_DIR C @ ''/'' @ doc_policy_type
              in if \<not> se_mkdir_ok E policy_dir then Some (Some OSError, P)
                 else
                   (case (if policy_dir @ ''/'' @ filename \<in> dom (p_fs P) \<and>
                             policy_dir @ ''/'' @ filename \<noteq> local_path
                          then free_move_path (p_fs P) policy_dir
                                 (take (length filename - 4) filename) ''.pdf''
                                 (policy_dir @ ''/'' @ filename) 1
                          else Some (policy_dir @ ''/'' @ filename)) of
                      None \<Rightarrow> None
                    | Some new_local_path \<Rightarrow>
                        (let moved = (local_path \<in> dom (p_fs P) \<and> local_path \<noteq> new_local_path \<and>
                                      se_move_ok E new_local_path);
                             fs = (if moved
                                   then ((p_fs P)(local_path := None))
                                          (new_local_path := p_fs P local_path)
                                   else p_fs P);
                             final_path = (if moved then new_local_path else local_path);
                             doc = \<lparr>d_crawl_session_id = s_id (p_session P),
                                    d_source_url = pdf_url, d_insurer = doc_insurer,
                                    d_local_file_path = final_path,
                                    d_file_size = file_size download_result,
                                    d_file_hash = file_hash download_result,
                                    d_country = s_country (p_session P),
                                    d_policy_type = doc_policy_type,
                                    d_classification = classification res,
                                    d_confidence = confidence res, d_status = status res,
                                    d_warnings = (if warnings res \<noteq> [] then Some (warnings res)
                                                  else None)\<rparr>;
                             downloaded = downloaded_count (p_counters P) + 1
                         in Some (None,
                              P\<lparr>p_fs := fs, p_documents := p_documents P @ [doc],
                                p_counters := (p_counters P)\<lparr>downloaded_count := downloaded\<rparr>,
                                p_session := (p_session P)
                                  \<lparr>s_pdfs_downloaded := downloaded,
                                   s_progress_pct :=
                                     50 + min 50 ((idx * 50) div max n_candidates 1)\<rparr>\<rparr>)))))"

text \<open>
  What follows a successful download: the duplicate check under its handler for
  \<^verbatim>\<open>SQLAlchemyError\<close>. An existing document with the same digest whose file exists makes
  the download a duplicate; one whose file is missing is refreshed in place.
\<close>

definition after_download ::
  "pylib \<Rightarrow> session_env \<Rightarrow> config \<Rightarrow> int \<Rightarrow> int \<Rightarrow> string \<Rightarrow> string \<Rightarrow> string \<Rightarrow> string \<Rightarrow>
   string option \<Rightarrow> download_result \<Rightarrow> phase2 \<Rightarrow> (py_error option \<times> phase2) option" where
  "after_download L E C idx n_candidates pdf_url insurer filename local_path policy_type
     download_result P =
     (if se_query_fails E pdf_url then Some (None, count_error P)
      else
        (case first_with_hash (p_documents P) (file_hash download_result) of
           Some i \<Rightarrow>
             (let existing_doc = p_documents P ! i in
              if d_local_file_path existing_doc \<noteq> [] \<and>
                 d_local_file_path existing_doc \<in> dom (p_fs P)
              then
                Some (None,
                  P\<lparr>p_fs := (p_fs P)(local_path := None),
                    p_counters := (p_counters P)
                      \<lparr>duplicate_count := duplicate_count (p_counters P) + 1,
                       filtered_count := filtered_count (p_counters P) + 1\<rparr>\<rparr>)
              else
                (let P = P\<lparr>p_documents := (p_documents P)
                             [i := existing_doc\<lparr>d_local_file_path := local_path,
                                    d_source_url := pdf_url,
                                    d_file_size := file_size download_result,
                                    d_crawl_session_id := s_id (p_session P)\<rparr>]\<rparr>
                 in case increment_local (download_count (p_counters P)) of
                      Inl e \<Rightarrow> Some (Some e, P)
                    | Inr v \<Rightarrow> Some (None, P\<lparr>p_counters := (p_counters P)\<lparr>download_count := v\<rparr>\<rparr>)))
         | None \<Rightarrow>
             store_document L E C idx n_candidates pdf_url insurer filename local_path policy_type
               download_result P))"

text \<open>
  One candidate, after the deadline check: the result is \<open>None\<close> when a file-name loop
  does not end, and otherwise the exception that leaves the loop, if any, with the state.
\<close>

definition process_candidate ::
  "pylib \<Rightarrow> session_env \<Rightarrow> config \<Rightarrow> int \<Rightarrow> int \<Rightarrow> string \<Rightarrow> phase2 \<Rightarrow>
   (py_error option \<times> phase2) option" where
  "process_candidate L E C idx n_candidates pdf_url P =
     (case is_valid_document pdf_url (s_keyword_filters (p_session P)) (s_policy_types (p_session P)) of
        (False, policy_type) \<Rightarrow>
          Some (None, P\<lparr>p_counters := (p_counters P)
                         \<lparr>filtered_count := filtered_count (p_counters P) + 1\<rparr>\<rparr>)
      | (True, policy_type) \<Rightarrow>
          (case extract_insurer_name L pdf_url of
             Inl e \<Rightarrow> Some (Some e, P)
           | Inr insurer \<Rightarrow>
               (case urlparse L pdf_url of
                  Inl e \<Rightarrow> Some (Some e, P)
                | Inr parsed \<Rightarrow>
                    (let name0 = (if basename (path parsed) = [] then ''document.pdf''
                                  else basename (path parsed));
                         name1 = sanitize_filename name0;
                         name2 = (if \<not> endswith name1 ''.pdf'' then name1 @ ''.pdf'' else name1);
                         base_name = replace name2 ''.pdf'' [];
                         dir = RAW_STORAGE_DIR C @ ''/'' @ insurer
                     in case unique_filename (p_fs P) dir base_name name2 1 of
                          None \<Rightarrow> None
                        | Some filename \<Rightarrow>
                            (let local_path = dir @ ''/'' @ filename in
                             case download_pdf_streaming C (se_download E pdf_url) pdf_url local_path
                                    (p_fs P) of
                               (Inl e, fs) \<Rightarrow> Some (Some e, P\<lparr>p_fs := fs\<rparr>)
                             | (Inr None, fs) \<Rightarrow> Some (None, count_error (P\<lparr>p_fs := fs\<rparr>))
                             | (Inr (Some download_result), fs) \<Rightarrow>
                                 after_download L E C idx n_candidates pdf_url insurer filename
                                   local_path policy_type download_result (P\<lparr>p_fs := fs\<rparr>))))))"

text \<open>The loop over the candidates, from candidate number \<open>idx\<close> on.\<close>

fun download_candidates ::
  "pylib \<Rightarrow> session_env \<Rightarrow> config \<Rightarrow> bool \<Rightarrow> int \<Rightarrow> int \<Rightarrow> string list \<Rightarrow> phase2 \<Rightarrow>
   (py_error option \<times> phase2) option" where
  "download_candidates L E C time_limit n_candidates idx [] P = Some (None, P)"
| "download_candidates L E C time_limit n_candidates idx (pdf_url # rest) P =
     (if time_limit \<and> deadline_passed (se_crawl E) (p_ticks P)
      then Some (None, P\<lparr>p_ticks := p_ticks P + 1\<rparr>)
      else
        (let P = (if time_limit then P\<lparr>p_ticks := p_ticks P + 1\<rparr> else P) in
         case process_candidate L E C idx n_candidates pdf_url P of
           None \<Rightarrow> None
         | Some (Some e, P') \<Rightarrow> Some (Some e, P')
         | Some (None, P') \<Rightarrow> download_candidates L E C time_limit n_candidates (idx + 1) rest P'))"

subsection \<open>The session\<close>

text \<open>\<^verbatim>\<open>_mark_crawl_failed(session_id, reason)\<close>, on the committed row.\<close>

definition mark_crawl_failed :: "crawl_session \<Rightarrow> crawl_session" where
  "mark_crawl_failed session =
     session\<lparr>s_status := ''failed'', s_errors_count := s_errors_count session + 1\<rparr>"

text \<open>
  \<^verbatim>\<open>run_crawl_session(session_id)\<close>. The result is \<open>None\<close> when the session does not end.
  Both handlers of the outer \<^verbatim>\<open>try\<close> statement mark the session as failed; the
  \<^verbatim>\<open>finally\<close> clause removes the session from the registry.
\<close>

definition run_crawl_session ::
  "pylib \<Rightarrow> session_env \<Rightarrow> config \<Rightarrow> int \<Rightarrow> world \<Rightarrow> world option" where
  "run_crawl_session L E C session_id W0 =
     (let W = W0\<lparr>w_active := register_active_crawl (w_active W0) session_id (se_now E)\<rparr>;
          finish = (\<lambda>W. W\<lparr>w_active := unregister_active_crawl (w_active W) session_id\<rparr>)
      in case w_session W of
           None \<Rightarrow> Some (finish W)
         | Some session0 \<Rightarrow>
             (let session = session0\<lparr>s_status := ''running''\<rparr>;
                  time_limit = (s_max_minutes session \<noteq> 0);
                  num_seeds = int (length (s_seed_urls session));
                  pages_per_seed = max 3 (s_max_pages session div max 1 num_seeds)
              in case crawl_seeds L C (se_crawl E) time_limit num_seeds pages_per_seed 1
                        (s_seed_urls session)
                        \<lparr>all_pdf_urls = [], total_pages = 0,
                         remaining_budget = s_max_pages session,
                         seeds_crawl = (w_crawl W)\<lparr>cs_visited := []\<rparr>,
                         seeds_session = session\<rparr> of
                   (Some e, S) \<Rightarrow>
                     Some (finish (W\<lparr>w_session := Some (mark_crawl_failed (seeds_session S)),
                                     w_crawl := seeds_crawl S\<rparr>))
                 | (None, S) \<Rightarrow>
                     (case download_candidates L E C time_limit (int (length (all_pdf_urls S))) 1
                             (all_pdf_urls S)
                             \<lparr>p_counters = \<lparr>downloaded_count = 0, filtered_count = 0,
                                            duplicate_count = 0, error_count = 0,
                                            download_count = None\<rparr>,
                              p_session = seeds_session S, p_documents = w_documents W,
                              p_fs = w_fs W, p_ticks = cs_ticks (seeds_crawl S)\<rparr> of
                        None \<Rightarrow> None
                      | Some (Some e, P) \<Rightarrow>
                          Some (finish (W\<lparr>w_session := Some (mark_crawl_failed (p_session P)),
                                          w_documents := p_documents P, w_fs := p_fs P,
                                          w_crawl := (seeds_crawl S)\<lparr>cs_ticks := p_ticks P\<rparr>\<rparr>))
                      | Some (None, P) \<Rightarrow>
                          Some (finish (W\<lparr>w_session := Some ((p_session P)
                                            \<lparr>s_status := ''completed'', s_progress_pct := 100,
                                             s_pdfs_filtered := filtered_count (p_counters P)\<rparr>),
                                          w_documents := p_documents P, w_fs := p_fs P,
                                          w_crawl := (seeds_crawl S)\<lparr>cs_ticks := p_ticks P\<rparr>\<rparr>)))))"












section \<open>Properties\<close>

subsection \<open>Evaluating the URL functions\<close>

lemmas urlsplit_eval =
  urlsplit_def lstrip_def WHATWG_C0_CONTROL_OR_SPACE_def UNSAFE_URL_BYTES_TO_REMOVE_def
  find_def is_ascii_alpha_def scheme_chars_def code_point_def splitnetloc_def split1_def
  lower_def lower_char_def is_upper_def Let_def

subsection \<open>Concurrency registry\<close>

lemma foldl_min_entry:
  "foldl (\<lambda>best y. if snd y < snd best then y else best) e d \<in> set (e # d) \<and>
   (\<forall>y \<in> set (e # d). snd (foldl (\<lambda>best y. if snd y < snd best then y else best) e d) \<le> snd y)"
  for e :: "'k \<times> int"
proof (induction d arbitrary: e)
  case Nil
  then show ?case by simp
next
  case (Cons x d)
  let ?e' = "if snd x < snd e then x else e"
  from Cons [of ?e'] show ?case
    by (auto split: if_splits)
qed

lemma min_key_by_value_oldest:
  assumes "min_key_by_value d = Inr k"
  shows "\<exists>t. (k, t) \<in> set d \<and> (\<forall>e \<in> set d. t \<le> snd e)"
proof (cases d)
  case Nil
  with assms show ?thesis by simp
next
  case (Cons e d')
  let ?m = "foldl (\<lambda>best y. if snd y < snd best then y else best) e d'"
  from assms Cons have k: "k = fst ?m" by simp
  from foldl_min_entry [of e d'] have m: "?m \<in> set d" "\<forall>y \<in> set d. snd ?m \<le> snd y"
    by (simp_all add: Cons)
  have "(k, snd ?m) \<in> set d" using m(1) k by simp
  with m(2) show ?thesis by (intro exI [of _ "snd ?m"]) simp
qed

lemma min_key_by_value_nonempty: "d \<noteq> [] \<Longrightarrow> \<exists>k. min_key_by_value d = Inr k"
  by (cases d) auto

lemma keys_dict_set: "fst ` set (dict_set d k v) = insert k (fst ` set d)"
  by (induction d) force+

lemma distinct_dict_set: "distinct (map fst d) \<Longrightarrow> distinct (map fst (dict_set d k v))"
proof (induction d)
  case Nil then show ?case by simp
next
  case (Cons e d)
  then have "distinct (map fst (dict_set d k v))" by simp
  moreover have "fst e \<notin> fst ` set d" "distinct (map fst d)" using Cons.prems by simp_all
  ultimately show ?case
    using keys_dict_set [of d k v] by (cases e) auto
qed

lemma can_start_true:
  "can_start_crawl C reg = Inr (True, None) \<longleftrightarrow> int (length reg) < MAX_CONCURRENT_CRAWLS C"
  by (cases "min_key_by_value reg") (simp_all add: can_start_crawl_def Let_def)

lemma can_start_false:
  assumes "can_start_crawl C reg = Inr (False, r)"
  shows "int (length reg) \<ge> MAX_CONCURRENT_CRAWLS C \<and>
      (\<exists>oldest t. (oldest, t) \<in> set reg \<and> (\<forall>e \<in> set reg. t \<le> snd e) \<and>
         r = Some (capacity_reason (MAX_CONCURRENT_CRAWLS C) oldest))"
proof -
  have ge: "int (length reg) \<ge> MAX_CONCURRENT_CRAWLS C"
  proof (rule ccontr)
    assume "\<not> ?thesis"
    then have "can_start_crawl C reg = Inr (True, None)" by (simp add: can_start_true)
    with assms show False by simp
  qed
  show ?thesis
  proof (cases "min_key_by_value reg")
    case (Inl e)
    with assms ge show ?thesis by (simp add: can_start_crawl_def Let_def)
  next
    case (Inr k)
    with assms ge have r: "r = Some (capacity_reason (MAX_CONCURRENT_CRAWLS C) k)"
      by (simp add: can_start_crawl_def Let_def)
    from min_key_by_value_oldest [OF Inr] obtain t
      where "(k, t) \<in> set reg" "\<forall>e \<in> set reg. t \<le> snd e" by auto
    with ge r show ?thesis by (intro conjI exI [of _ k] exI [of _ t]) simp_all
  qed
qed

lemma can_start_refuses:
  assumes "int (length reg) \<ge> MAX_CONCURRENT_CRAWLS C" "reg \<noteq> []"
  shows "\<exists>r. can_start_crawl C reg = Inr (False, r)"
proof -
  from min_key_by_value_nonempty [OF assms(2)] obtain k where "min_key_by_value reg = Inr k" ..
  with assms(1) show ?thesis by (simp add: can_start_crawl_def Let_def)
qed

text \<open>
  C4, as amended. \<^verbatim>\<open>can_start_crawl\<close> returns true exactly when the number of registered
  crawls is below \<^verbatim>\<open>MAX_CONCURRENT_CRAWLS\<close>. When it returns false the count is at or
  above the ceiling, and the reason names a registered crawl whose start time is the
  earliest of all registered crawls. With a count at or above the ceiling and at least
  one registered crawl it does return false.
\<close>

theorem can_start_crawl_ceiling:
  "(can_start_crawl C reg = Inr (True, None) \<longleftrightarrow>
      get_active_crawl_count reg < MAX_CONCURRENT_CRAWLS C) \<and>
   (can_start_crawl C reg = Inr (False, r) \<longrightarrow>
      get_active_crawl_count reg \<ge> MAX_CONCURRENT_CRAWLS C \<and>
      (\<exists>oldest t. (oldest, t) \<in> set reg \<and> (\<forall>e \<in> set reg. t \<le> snd e) \<and>
         r = Some (capacity_reason (MAX_CONCURRENT_CRAWLS C) oldest))) \<and>
   (get_active_crawl_count reg \<ge> MAX_CONCURRENT_CRAWLS C \<and> reg \<noteq> [] \<longrightarrow>
      (\<exists>r'. can_start_crawl C reg = Inr (False, r')))"
proof (intro conjI impI)
  show "can_start_crawl C reg = Inr (True, None) \<longleftrightarrow>
      get_active_crawl_count reg < MAX_CONCURRENT_CRAWLS C"
    by (simp add: can_start_true get_active_crawl_count_def)
next
  assume a: "can_start_crawl C reg = Inr (False, r)"
  from can_start_false [OF a]
  show "get_active_crawl_count reg \<ge> MAX_CONCURRENT_CRAWLS C"
    by (simp add: get_active_crawl_count_def)
  from can_start_false [OF a]
  show "\<exists>oldest t. (oldest, t) \<in> set reg \<and> (\<forall>e \<in> set reg. t \<le> snd e) \<and>
         r = Some (capacity_reason (MAX_CONCURRENT_CRAWLS C) oldest)"
    by (rule conjunct2)
next
  assume "get_active_crawl_count reg \<ge> MAX_CONCURRENT_CRAWLS C \<and> reg \<noteq> []"
  then show "\<exists>r'. can_start_crawl C reg = Inr (False, r')"
    using can_start_refuses [of C reg] by (simp add: get_active_crawl_count_def)
qed

lemma two_crawls_registered:
  "register_active_crawl (register_active_crawl [] 7 100) 9 105 = [(7, 100), (9, 105)]"
  by (simp add: register_active_crawl_def)

lemma can_start_two_crawls:
  "can_start_crawl example_config [(7, 100), (9, 105)] = Inr (False, Some (capacity_reason 1 7))"
  by (simp add: can_start_crawl_def example_config_def)

theorem can_start_crawl_ceiling_witness:
  "can_start_crawl example_config [(7, 100), (9, 105)] = Inr (False, Some (capacity_reason 1 7)) \<and>
   get_active_crawl_count [(7, 100), (9, 105)] \<ge> MAX_CONCURRENT_CRAWLS example_config \<and>
   (7, 100) \<in> set [(7, 100), (9, 105 :: int)] \<and>
   capacity_reason 1 7 = ''Maximum concurrent crawls (1) reached. Oldest active crawl: #7''"
proof -
  have "get_active_crawl_count [(7, 100), (9, 105)] \<ge> MAX_CONCURRENT_CRAWLS example_config"
    using can_start_crawl_ceiling [of example_config "[(7, 100), (9, 105)]"
        "Some (capacity_reason 1 7)", THEN conjunct2, THEN conjunct1]
      can_start_two_crawls
    by simp
  moreover have
    "capacity_reason 1 7 = ''Maximum concurrent crawls (1) reached. Oldest active crawl: #7''"
    by code_simp
  ultimately show ?thesis
    using can_start_two_crawls by simp
qed

text \<open>
  C4 as stated also says that \<^verbatim>\<open>can_start_crawl\<close> returns false exactly when the count
  equals the ceiling. \<^verbatim>\<open>register_active_crawl\<close> does not look at the ceiling, and
  \<^verbatim>\<open>run_crawl_session\<close> registers without asking \<^verbatim>\<open>can_start_crawl\<close>: with a ceiling of
  one and two crawls registered, the count is two and the answer is false.
\<close>

theorem can_start_crawl_above_ceiling:
  "register_active_crawl (register_active_crawl [] 7 100) 9 105 = [(7, 100), (9, 105)] \<and>
   can_start_crawl example_config [(7, 100), (9, 105)] = Inr (False, Some (capacity_reason 1 7)) \<and>
   get_active_crawl_count [(7, 100), (9, 105)] \<noteq> MAX_CONCURRENT_CRAWLS example_config"
  using two_crawls_registered can_start_two_crawls
  by (simp add: get_active_crawl_count_def example_config_def)

subsection \<open>Classification of very small files\<close>

lemma size_adjust_small:
  "n \<noteq> 0 \<Longrightarrow> n < 10000 \<Longrightarrow>
   size_adjust (Some n) (c, w) = (c * 0.5, w @ [''Very small file''])"
  by (simp add: size_adjust_def)

lemma size_adjust_zero: "size_adjust (Some 0) cw = cw"
  by (cases cw) (simp add: size_adjust_def)

lemma urlparse_z_pdf:
  "urlparse L ''https://x.org/z.pdf'' =
     Inr \<lparr>scheme = ''https'', netloc = ''x.org'', path = ''/z.pdf'',
          params = '''', query = '''', fragment = ''''\<rparr>"
  by (simp add: urlparse_def urlsplit_eval uses_params_def)

lemma stages_z_pdf:
  "lower ''https://x.org/z.pdf'' = ''https://x.org/z.pdf''"
  "lower ''z.pdf'' = ''z.pdf''"
  "doc_type_stage ''https://x.org/z.pdf'' ''z.pdf'' None = (0, ''Unclassified'', [])"
  "policy_type_stage ''https://x.org/z.pdf'' ''z.pdf'' None ''General'' = (0, ''General'')"
  "replace (lower ''x.org'') ''www.'' [] = ''x.org''"
  "insurer_of_domain ''x.org'' = None"
  by code_simp+

lemma confidence_stage_z_pdf:
  "confidence_stage ''https://x.org/z.pdf'' ''z.pdf'' 0 ''Unclassified'' 0 =
     (0.3, ''General Document'', [''No classification keyword match''])"
proof -
  have "contains ''z.pdf'' ''.pdf''"
    by code_simp
  then show ?thesis
    by (simp add: confidence_stage_def)
qed

text \<open>
  C9 asks that every input with a file size below 10,000 bytes has its confidence halved
  and carries the warning \<^verbatim>\<open>Very small file\<close>. The code guards the adjustment with
  \<^verbatim>\<open>if file_size:\<close>, which is false for a size of zero: an empty file keeps its
  confidence, 0.3 here, and gets no such warning, while the same document with one byte
  is halved to 0.15 and warned about.
\<close>

theorem classify_document_empty_file:
  "classify_document L ''https://x.org/z.pdf'' ''z.pdf'' ''General'' (Some 0) None =
     Inr \<lparr>classification = ''General Document'', confidence = 0.3, status = ''needs-review'',
          warnings = [''No classification keyword match'', WARN_VERY_LOW_CONFIDENCE],
          insurer_name = None, matched_source = [], detected_policy_type = ''General'',
          url_domain = ''x.org''\<rparr> \<and>
   classify_document L ''https://x.org/z.pdf'' ''z.pdf'' ''General'' (Some 1) None =
     Inr \<lparr>classification = ''General Document'', confidence = 0.15, status = ''needs-review'',
          warnings = [''No classification keyword match'', ''Very small file'',
                      WARN_VERY_LOW_CONFIDENCE],
          insurer_name = None, matched_source = [], detected_policy_type = ''General'',
          url_domain = ''x.org''\<rparr>"
proof -
  have r: "round2 (3 / 10) = 3 / 10" "round2 (3 / 20) = 3 / 20"
    by (simp_all add: round2_def Let_def)
  show ?thesis
    by (simp add: classify_document_def stages_z_pdf confidence_stage_z_pdf urlparse_z_pdf
        size_adjust_def status_stage_def r)
qed

subsection \<open>Robots cache\<close>

lemma can_fetch_disabled: "\<not> CRAWL_RESPECT_ROBOTS C \<Longrightarrow> can_fetch L C urlopen cache url = (True, cache)"
  by (simp add: can_fetch_def)

lemma can_fetch_read_raises:
  assumes "CRAWL_RESPECT_ROBOTS C" "urlparse L url = Inr parsed"
    and "map_of cache (scheme parsed @ ''://'' @ netloc parsed @ ''/robots.txt'') = None"
    and "urlopen (scheme parsed @ ''://'' @ netloc parsed @ ''/robots.txt'') = FetchError \<or>
         urlopen (scheme parsed @ ''://'' @ netloc parsed @ ''/robots.txt'') = UndecodableBody"
  shows "fst (can_fetch L C urlopen cache url)"
  using assms by (auto simp: can_fetch_def Let_def rp_read_def split: sum.splits)

lemma urlparse_example_page:
  "urlparse L ''https://example.com/page'' =
     Inr \<lparr>scheme = ''https'', netloc = ''example.com'', path = ''/page'',
          params = '''', query = '''', fragment = ''''\<rparr>"
  "urlparse L ''https://example.com/robots.txt'' =
     Inr \<lparr>scheme = ''https'', netloc = ''example.com'', path = ''/robots.txt'',
          params = '''', query = '''', fragment = ''''\<rparr>"
  by (simp_all add: urlparse_def urlsplit_eval uses_params_def)

text \<open>
  C8 asks that \<^verbatim>\<open>can_fetch\<close> returns True whenever the robots file could not be fetched,
  and False only when a fetched and parsed robots file disallows the URL. The code
  expects \<^verbatim>\<open>rp.read()\<close> to raise when the file cannot be fetched, but \<^verbatim>\<open>read\<close> catches
  \<^verbatim>\<open>HTTPError\<close> itself. When the server answers the robots URL with status 503 the
  parser is cached as if it had been loaded and, never having parsed a file, answers
  False for every URL; with status 403 it sets \<^verbatim>\<open>disallow_all\<close> and answers False as
  well. A fetch that fails without an HTTP status does fail open.
\<close>

theorem can_fetch_blocks_on_http_error:
  "can_fetch L example_config (\<lambda>u. HTTPError 503) [] ''https://example.com/page'' =
     (False, [(''https://example.com/robots.txt'', Some new_parser)]) \<and>
   can_fetch L example_config (\<lambda>u. HTTPError 503)
       [(''https://example.com/robots.txt'', Some new_parser)] ''https://example.com/page'' =
     (False, [(''https://example.com/robots.txt'', Some new_parser)]) \<and>
   can_fetch L example_config (\<lambda>u. HTTPError 403) [] ''https://example.com/page'' =
     (False, [(''https://example.com/robots.txt'', Some (new_parser\<lparr>disallow_all := True\<rparr>))]) \<and>
   can_fetch L example_config (\<lambda>u. FetchError) [] ''https://example.com/page'' =
     (True, [(''https://example.com/robots.txt'', None)])"
  by (simp add: can_fetch_def urlparse_example_page example_config_def rp_read_def
      rp_can_fetch_def new_parser_def)

subsection \<open>Streaming downloader\<close>


















subsection \<open>Candidate filtering\<close>

lemma urlparse_policy_view:
  "urlparse L ''https://example.com/download/policy.pdf/view'' =
   Inr \<lparr>scheme = ''https'', netloc = ''example.com'', path = ''/download/policy.pdf/view'',
        params = '''', query = '''', fragment = ''''\<rparr>"
proof -
  have "urlsplit L ''https://example.com/download/policy.pdf/view'' =
    Inr \<lparr>scheme = ''https'', netloc = ''example.com'', path = ''/download/policy.pdf/view'',
        params = '''', query = '''', fragment = ''''\<rparr>"
    by (simp add: urlsplit_eval)
  then show ?thesis
    by (simp add: urlparse_def)
qed

lemma is_pdf_url_policy_view:
  "is_pdf_url L ''https://example.com/download/policy.pdf/view'' = Inr True"
proof -
  have "contains (lower ''/download/policy.pdf/view'') ''.pdf''"
    by code_simp
  then show ?thesis
    by (simp add: is_pdf_url_def urlparse_policy_view Let_def)
qed

lemma normalize_url_policy_view:
  "normalize_url L C ''https://example.com/download/policy.pdf/view'' =
   Inr ''https://example.com/download/policy.pdf/view''"
proof -
  have a: "rstrip ''/download/policy.pdf/view'' {CHR ''/''} = ''/download/policy.pdf/view''"
    by (simp add: rstrip_def)
  have b: "lower ''https'' = ''https''" "lower ''example.com'' = ''example.com''"
    by code_simp+
  show ?thesis
    by (simp add: normalize_url_def urlparse_policy_view Let_def a b urlunparse_def urlunsplit_def)
qed

text \<open>
  C2 asks that every URL accepted by \<^verbatim>\<open>is_pdf_url\<close> is accepted by \<^verbatim>\<open>is_valid_document\<close>
  whatever the filter lists are. The code does not do that: the URL
  \<^verbatim>\<open>https://example.com/download/policy.pdf/view\<close> is a PDF URL by \<^verbatim>\<open>is_pdf_url\<close> (its
  path contains \<^verbatim>\<open>.pdf\<close>), it is its own normal form, and \<^verbatim>\<open>is_valid_document\<close> rejects
  it, both with empty filter lists and with filters that do not occur in it, because
  the fallback of \<^verbatim>\<open>is_valid_document\<close> only looks at the end of the whole URL.
\<close>

theorem is_valid_document_rejects_pdf_url:
  "is_pdf_url L ''https://example.com/download/policy.pdf/view'' = Inr True \<and>
   normalize_url L C ''https://example.com/download/policy.pdf/view'' =
     Inr ''https://example.com/download/policy.pdf/view'' \<and>
   is_valid_document ''https://example.com/download/policy.pdf/view'' [] [] = (False, None) \<and>
   is_valid_document ''https://example.com/download/policy.pdf/view'' [''motor''] [''home'']
     = (False, None)"
proof -
  have "is_valid_document ''https://example.com/download/policy.pdf/view'' [] [] = (False, None)"
    by code_simp
  moreover have
    "is_valid_document ''https://example.com/download/policy.pdf/view'' [''motor''] [''home'']
       = (False, None)"
    by code_simp
  ultimately show ?thesis
    by (simp add: is_pdf_url_policy_view normalize_url_policy_view)
qed

subsection \<open>Same-domain comparison\<close>



























text \<open>
  With user information in the network location the code compares the user names: the
  text before the first colon is \<^verbatim>\<open>u\<close> for both URLs, although the hosts are
  \<^verbatim>\<open>tower.co.nz\<close> and \<^verbatim>\<open>other.co.nz\<close>.
\<close>

lemma urlparse_userinfo:
  "urlparse L ''https://u:p@tower.co.nz/a'' =
     Inr \<lparr>scheme = ''https'', netloc = ''u:p@tower.co.nz'', path = ''/a'',
          params = '''', query = '''', fragment = ''''\<rparr>"
  "urlparse L ''https://u:q@other.co.nz/b'' =
     Inr \<lparr>scheme = ''https'', netloc = ''u:q@other.co.nz'', path = ''/b'',
          params = '''', query = '''', fragment = ''''\<rparr>"
  by (simp_all add: urlparse_def urlsplit_eval uses_params_def)

lemma same_domain_userinfo:
  "same_domain L ''https://u:p@tower.co.nz/a'' ''https://u:q@other.co.nz/b'' = Inr True \<and>
   hostname ''u:p@tower.co.nz'' = Some ''tower.co.nz'' \<and>
   hostname ''u:q@other.co.nz'' = Some ''other.co.nz''"
proof -
  have "get_base_domain ''u:p@tower.co.nz'' = ''u''" "get_base_domain ''u:q@other.co.nz'' = ''u''"
    by code_simp+
  moreover have "hostname ''u:p@tower.co.nz'' = Some ''tower.co.nz''"
    "hostname ''u:q@other.co.nz'' = Some ''other.co.nz''"
    by code_simp+
  ultimately show ?thesis
    by (simp add: same_domain_def urlparse_userinfo)
qed




subsection \<open>File names stay inside their directory\<close>

lemma isalnum_not_separator: "\<not> isalnum (CHR ''/'')" "\<not> isalnum (CHR 0x5C)"
  by (simp_all add: isalnum_def code_point_def)

lemma set_sanitize_filename:
  "set (sanitize_filename name) \<subseteq> {c. isalnum c \<or> c \<in> {CHR ''_'', CHR ''-'', CHR ''.''}}"
proof -
  let ?P = "\<lambda>c. isalnum c \<or> c \<in> {CHR ''_'', CHR ''-'', CHR ''.''}"
  define t where
    "t = lstrip (filter ?P (replace (replace (replace name ''/'' ''_'') [CHR 0x5C] ''_'') ''..'' ''_''))
           {CHR ''.''}"
  define u where "u = (if t = [] then ''unknown'' else t)"
  have "set t \<subseteq> Collect ?P"
    unfolding t_def lstrip_def using set_dropWhileD by fastforce
  moreover have "set ''unknown'' \<subseteq> Collect ?P"
    by (simp add: isalnum_def code_point_def)
  ultimately have u: "set u \<subseteq> Collect ?P"
    by (simp add: u_def)
  have "set (take 200 u) \<subseteq> set u"
    by (rule set_take_subset)
  with u have "set (if length u > 200 then take 200 u else u) \<subseteq> Collect ?P"
    by auto
  moreover have "sanitize_filename name = (if length u > 200 then take 200 u else u)"
    unfolding sanitize_filename_def Let_def t_def u_def ..
  ultimately show ?thesis
    by (simp only:)
qed

lemma sanitize_filename_no_leading_period: "\<not> startswith (sanitize_filename name) ''.''"
proof -
  have a: "\<not> prefix ''.'' (dropWhile (\<lambda>c. c \<in> {CHR ''.''}) xs)" for xs
    by (induction xs) (auto simp: prefix_def)
  have b: "\<not> prefix ''.'' (take n ys)" if "\<not> prefix ''.'' ys" for n ys
    using that by (cases ys; cases n) (auto simp: prefix_def)
  show ?thesis
    unfolding sanitize_filename_def Let_def lstrip_def startswith_def
    using a b by (auto simp: prefix_def)
qed

text \<open>
  C10. For every input string, \<^verbatim>\<open>sanitize_filename\<close> returns a non-empty string of at
  most 200 characters, made only of alphanumeric characters, underscore, hyphen and
  period, that does not begin with a period and contains neither \<^verbatim>\<open>/\<close> nor the
  backslash. Such a name is neither \<^verbatim>\<open>.\<close> nor \<^verbatim>\<open>..\<close> and has no separator, so joined
  to a directory it names an entry of that directory.
\<close>

theorem sanitize_filename_safe:
  "sanitize_filename name \<noteq> [] \<and>
   length (sanitize_filename name) \<le> 200 \<and>
   (\<forall>c \<in> set (sanitize_filename name). isalnum c \<or> c = CHR ''_'' \<or> c = CHR ''-'' \<or> c = CHR ''.'') \<and>
   \<not> startswith (sanitize_filename name) ''.'' \<and>
   CHR ''/'' \<notin> set (sanitize_filename name) \<and>
   CHR 0x5C \<notin> set (sanitize_filename name)"
proof -
  have ne: "sanitize_filename name \<noteq> []"
    by (simp add: sanitize_filename_def Let_def)
  have len: "length (sanitize_filename name) \<le> 200"
    by (simp add: sanitize_filename_def Let_def)
  have chars: "\<forall>c \<in> set (sanitize_filename name).
      isalnum c \<or> c = CHR ''_'' \<or> c = CHR ''-'' \<or> c = CHR ''.''"
    using set_sanitize_filename [of name] by auto
  have slash: "CHR ''/'' \<notin> set (sanitize_filename name)"
    using chars isalnum_not_separator(1) by fastforce
  have backslash: "CHR 0x5C \<notin> set (sanitize_filename name)"
    using chars isalnum_not_separator(2) by fastforce
  from ne len chars sanitize_filename_no_leading_period slash backslash
  show ?thesis by blast
qed

theorem sanitize_filename_safe_witness:
  "sanitize_filename ''../../etc/passwd'' = ''____etc_passwd'' \<and>
   length ''____etc_passwd'' \<le> 200 \<and>
   \<not> startswith ''____etc_passwd'' ''.'' \<and>
   CHR ''/'' \<notin> set ''____etc_passwd'' \<and>
   (isalnum (CHR ''e'') \<or> CHR ''e'' = CHR ''_'' \<or> CHR ''e'' = CHR ''-'' \<or> CHR ''e'' = CHR ''.'')"
proof -
  have e: "sanitize_filename ''../../etc/passwd'' = ''____etc_passwd''"
    by code_simp
  show ?thesis
    using sanitize_filename_safe [of "''../../etc/passwd''"] unfolding e by simp
qed

end
